theory Spec2Isabelle
  imports Main
begin

section \<open>Values exchanged with the device\<close>

text \<open>
  The manager of \<^verbatim>\<open>Grid_Dut_Mng.py\<close> (class \<^verbatim>\<open>CloudESSManager\<close>) receives decoded JSON
  documents and reads them with \<^verbatim>\<open>dict.get\<close>. A decoded document is a value of type
  \<open>json\<close>; Python's \<^verbatim>\<open>None\<close> is \<open>JNull\<close>, a \<^verbatim>\<open>dict\<close> is an association list read with
  \<open>map_of\<close>. Numbers are Python integers: floating-point values are not part of this
  model.
\<close>

datatype json =
    JNull
  | JBool bool
  | JInt int
  | JStr string
  | JArr "json list"
  | JObj "(string \<times> json) list"

text \<open>The exceptions the handlers can raise on a decoded document.\<close>

datatype exn = AttributeError | TypeError

text \<open>\<^verbatim>\<open>d.get(k, default)\<close> on a dict.\<close>

definition get_or :: "(string \<times> json) list \<Rightarrow> string \<Rightarrow> json \<Rightarrow> json" where
  "get_or kvs k d = (case map_of kvs k of None \<Rightarrow> d | Some v \<Rightarrow> v)"

text \<open>\<^verbatim>\<open>x.get(k, default)\<close> on any decoded value: only a dict has the method.\<close>

definition dict_get :: "json \<Rightarrow> string \<Rightarrow> json \<Rightarrow> exn + json" where
  "dict_get x k d = (case x of JObj kvs \<Rightarrow> Inr (get_or kvs k d) | _ \<Rightarrow> Inl AttributeError)"

text \<open>Python truthiness, as tested by \<^verbatim>\<open>if not order_sn\<close> and \<^verbatim>\<open>if order_sn\<close>.\<close>

fun truthy :: "json \<Rightarrow> bool" where
  "truthy JNull = False"
| "truthy (JBool b) = b"
| "truthy (JInt n) = (n \<noteq> 0)"
| "truthy (JStr s) = (s \<noteq> [])"
| "truthy (JArr xs) = (xs \<noteq> [])"
| "truthy (JObj kvs) = (kvs \<noteq> [])"

text \<open>
  Dictionary keys. Hashing a list or a dict raises \<^verbatim>\<open>TypeError\<close>; \<^verbatim>\<open>True\<close> and \<^verbatim>\<open>1\<close>
  (\<^verbatim>\<open>False\<close> and \<^verbatim>\<open>0\<close>) are equal and hash alike, so they are one key.
\<close>

datatype key = KNone | KInt int | KStr string

fun hash_key :: "json \<Rightarrow> exn + key" where
  "hash_key JNull = Inr KNone"
| "hash_key (JBool b) = Inr (KInt (if b then 1 else 0))"
| "hash_key (JInt n) = Inr (KInt n)"
| "hash_key (JStr s) = Inr (KStr s)"
| "hash_key (JArr xs) = Inl TypeError"
| "hash_key (JObj kvs) = Inl TypeError"

text \<open>
  The right operand of \<^verbatim>\<open>self.total_money += ...\<close>: an integer (a boolean counts as one);
  anything else makes the addition raise \<^verbatim>\<open>TypeError\<close>.
\<close>

fun num_of :: "json \<Rightarrow> int option" where
  "num_of (JInt n) = Some n"
| "num_of (JBool b) = Some (if b then 1 else 0)"
| "num_of _ = None"

text \<open>
  \<^verbatim>\<open>xs[start:]\<close>: a negative start counts from the end, and the bounds are clamped.
\<close>

definition slice_from :: "'a list \<Rightarrow> int \<Rightarrow> 'a list" where
  "slice_from xs start =
     (let n = int (length xs);
          st = (if start < 0 then max 0 (n + start) else min start n)
      in drop (nat st) xs)"

section \<open>Enumerations\<close>

datatype CommandType =
    POWER_CONTROL | OTA_UPGRADE | CHARGE_POWER_ADJUST | DISCHARGE_POWER_ADJUST
  | CHARGE_RATE_MODE | DISCHARGE_RATE_MODE | CHARGE_SOC_SET | DISCHARGE_SOC_SET

fun command_value :: "CommandType \<Rightarrow> string" where
  "command_value POWER_CONTROL = ''powerCtrlReq''"
| "command_value OTA_UPGRADE = ''otaReq''"
| "command_value CHARGE_POWER_ADJUST = ''powerAdjustSetReq''"
| "command_value DISCHARGE_POWER_ADJUST = ''powerAdjustSetDischargeReq''"
| "command_value CHARGE_RATE_MODE = ''rateModeSetReq''"
| "command_value DISCHARGE_RATE_MODE = ''dischgRateModeSetReq''"
| "command_value CHARGE_SOC_SET = ''chgSocSetReq''"
| "command_value DISCHARGE_SOC_SET = ''dischgSocSetReq''"

datatype MessageType = KEEPALIVE | STATE | EVENT | CONFIRM | REQUEST | RESPONSE

fun message_value :: "MessageType \<Rightarrow> string" where
  "message_value KEEPALIVE = ''keepalive''"
| "message_value STATE = ''state''"
| "message_value EVENT = ''event''"
| "message_value CONFIRM = ''confirm''"
| "message_value REQUEST = ''request''"
| "message_value RESPONSE = ''response''"

text \<open>The two directions \<^verbatim>\<open>"subscribe"\<close> and \<^verbatim>\<open>"publish"\<close> that callers pass.\<close>

datatype direction = Subscribe | Publish

section \<open>The session\<close>

text \<open>
  One reading of \<^verbatim>\<open>datetime.now()\<close>: the instant in microseconds, its
  \<^verbatim>\<open>strftime("%Y-%m-%d %H:%M:%S")\<close> text and its \<^verbatim>\<open>isoformat()\<close> text. A handler
  call uses one reading.
\<close>

record clock =
  instant :: int
  stamp :: string
  iso :: string

record event =
  ev_timestamp :: json
  ev_realtime :: string
  ev_function :: json
  ev_header :: json
  ev_data :: json

record charge_record =
  cr_order_sn :: json
  cr_start_time :: json
  cr_stop_time :: json
  cr_electAmount :: json
  cr_total_money :: json
  cr_start_soc :: json
  cr_stop_soc :: json
  cr_chgTime :: json
  cr_rateModelID :: json
  cr_created_at :: string

record discharge_record =
  dr_order_sn :: json
  dr_start_time :: json
  dr_stop_time :: json
  dr_electAmount :: json
  dr_total_money :: json
  dr_start_soc :: json
  dr_stop_soc :: json
  dr_duration :: json
  dr_rateModelID :: json
  dr_created_at :: string

datatype status = Pending | Completed

record pending_command =
  pc_type :: CommandType
  pc_params :: json
  pc_timestamp :: int
  pc_status :: status
  pc_response :: "json option"

text \<open>
  An entry of \<^verbatim>\<open>command_history\<close> as \<^verbatim>\<open>send_rate_model_set\<close> writes it; its fixed
  \<^verbatim>\<open>type\<close> and \<^verbatim>\<open>status\<close> labels are constants of the source and are left out.
\<close>

record history_entry =
  he_id :: int
  he_payload :: json
  he_timestamp :: string

text \<open>
  The fields of \<^verbatim>\<open>CloudESSManager\<close> that the handlers below read or write.
  \<open>published\<close> records the calls \<^verbatim>\<open>self.client.publish(topic, json.dumps(payload))\<close> in
  order, each as the topic and the payload before serialisation; the transport client
  itself is outside the model. \<^verbatim>\<open>total_money\<close> is declared on the class with value 0 and
  updated with \<^verbatim>\<open>self.total_money += ...\<close>, which reads the class value until the first
  update has created the attribute of the instance: each manager counts from 0.
\<close>

record session =
  product_code :: string
  device_code :: string
  use_auto_topic :: bool
  manual_topics :: "direction \<Rightarrow> MessageType \<rightharpoonup> string"
  connected :: bool
  last_heartbeat :: "int option"
  connection_timeout :: int
  event_logs :: "event list"
  command_history :: "history_entry list"
  charge_records :: "key \<rightharpoonup> charge_record"
  discharge_records :: "key \<rightharpoonup> discharge_record"
  charge_order_sns :: "key list"
  discharge_order_sns :: "key list"
  message_index :: int
  pending_commands :: "int \<rightharpoonup> pending_command"
  total_money :: int
  published :: "(string \<times> json) list"

definition init_manual_topics :: "direction \<Rightarrow> MessageType \<rightharpoonup> string" where
  "init_manual_topics d =
     (case d of
        Subscribe \<Rightarrow>
          [KEEPALIVE \<mapsto> ''100100003/9999998/S2M/keepalive'',
           STATE \<mapsto> ''100100003/9999998/S2M/state'',
           EVENT \<mapsto> ''100100003/9999998/S2M/event'',
           RESPONSE \<mapsto> ''100100003/9999998/S2M/response'']
      | Publish \<Rightarrow>
          [CONFIRM \<mapsto> ''100100003/9999998/M2S/confirm'',
           REQUEST \<mapsto> ''100100003/9999998/M2S/request''])"

text \<open>\<^verbatim>\<open>__init__\<close>: the state of a new manager.\<close>

definition init :: "string \<Rightarrow> string \<Rightarrow> session" where
  "init pc dc =
     \<lparr> product_code = pc, device_code = dc, use_auto_topic = True,
       manual_topics = init_manual_topics,
       connected = False, last_heartbeat = None, connection_timeout = 120,
       event_logs = [], command_history = [],
       charge_records = Map.empty, discharge_records = Map.empty,
       charge_order_sns = [], discharge_order_sns = [],
       message_index = 1, pending_commands = Map.empty,
       total_money = 0, published = [] \<rparr>"

section \<open>Topics and publishing\<close>

text \<open>\<^verbatim>\<open>_get_topic\<close>\<close>

definition get_topic :: "session \<Rightarrow> MessageType \<Rightarrow> direction \<Rightarrow> string" where
  "get_topic s mt d =
     (if use_auto_topic s then
        product_code s @ ''/'' @ device_code s @ ''/'' @
          (if d = Subscribe then ''S2M'' else ''M2S'') @ ''/'' @ message_value mt
      else
        (case manual_topics s d mt of
           None \<Rightarrow> ''default/'' @ message_value mt
         | Some t \<Rightarrow> t))"

definition publish :: "string \<Rightarrow> json \<Rightarrow> session \<Rightarrow> session" where
  "publish topic payload s = s\<lparr>published := published s @ [(topic, payload)]\<rparr>"

section \<open>Event handling\<close>

text \<open>The confirmation function for an event function (\<^verbatim>\<open>_send_confirm\<close>, the if-chain).\<close>

definition func_conf :: "json \<Rightarrow> string" where
  "func_conf func =
     (if func = JStr ''chargeEvent'' then ''chgEventConf''
      else if func = JStr ''dischargeEvent'' then ''dischgEventConf''
      else if func = JStr ''faultRecord'' then ''faultRecordConf''
      else if func = JStr ''chargeRecord'' then ''chargeRecordConf''
      else if func = JStr ''dischargeRecord'' then ''dischargeRecordConf''
      else '''')"

definition confirm_payload :: "clock \<Rightarrow> json \<Rightarrow> json \<Rightarrow> json \<Rightarrow> json" where
  "confirm_payload now idx order_sn func =
     JObj [(''header'', JObj [(''index'', idx),
                              (''version'', JStr ''1.0''),
                              (''timestamp'', JStr (stamp now)),
                              (''messageType'', JStr ''confirm''),
                              (''function'', JStr (func_conf func))]),
           (''dataBody'', JObj [(''orderSn'', order_sn),
                                (''result'', JInt 1),
                                (''reason'', JInt 1)])]"

text \<open>\<^verbatim>\<open>_send_confirm\<close>\<close>

definition send_confirm :: "clock \<Rightarrow> json \<Rightarrow> json \<Rightarrow> json \<Rightarrow> session \<Rightarrow> session" where
  "send_confirm now idx order_sn func s =
     (if idx = JNull then s
      else publish (get_topic s CONFIRM Publish) (confirm_payload now idx order_sn func) s)"

text \<open>The record that \<^verbatim>\<open>_process_charge_record\<close> builds from the body.\<close>

definition make_charge_record :: "clock \<Rightarrow> json \<Rightarrow> (string \<times> json) list \<Rightarrow> charge_record" where
  "make_charge_record now order_sn body =
     \<lparr> cr_order_sn = order_sn,
       cr_start_time = get_or body ''startTime'' JNull,
       cr_stop_time = get_or body ''stopTime'' JNull,
       cr_electAmount = get_or body ''electAmount'' (JInt 0),
       cr_total_money = get_or body ''totalMoney'' (JInt 0),
       cr_start_soc = get_or body ''startSoc'' (JInt 0),
       cr_stop_soc = get_or body ''stopSoc'' (JInt 0),
       cr_chgTime = get_or body ''chgTime'' (JInt 0),
       cr_rateModelID = get_or body ''rateModelID'' (JInt 0),
       cr_created_at = stamp now \<rparr>"

text \<open>
  \<^verbatim>\<open>_process_charge_record\<close>. The result is the exception raised, if any, and the session
  as the call leaves it: what was stored before a raise stays stored.
\<close>

definition process_charge_record :: "clock \<Rightarrow> json \<Rightarrow> session \<Rightarrow> exn option \<times> session" where
  "process_charge_record now payload s =
     (case dict_get payload ''dataBody'' (JObj []) of
        Inl e \<Rightarrow> (Some e, s)
      | Inr data_body \<Rightarrow>
     (case data_body of
        JObj body \<Rightarrow>
          (let order_sn = get_or body ''orderSn'' JNull in
           if \<not> truthy order_sn then (None, s)
           else
             (let rec = make_charge_record now order_sn body in
              case hash_key order_sn of
                Inl e \<Rightarrow> (Some e, s)
              | Inr k \<Rightarrow>
                  (let s1 = s\<lparr>charge_records := (charge_records s)(k \<mapsto> rec)\<rparr>;
                       s2 = (if k \<notin> set (charge_order_sns s1)
                             then s1\<lparr>charge_order_sns := charge_order_sns s1 @ [k]\<rparr>
                             else s1)
                   in case num_of (cr_total_money rec) of
                        None \<Rightarrow> (Some TypeError, s2)
                      | Some c \<Rightarrow> (None, s2\<lparr>total_money := total_money s2 + c\<rparr>))))
      | _ \<Rightarrow> (Some AttributeError, s)))"

text \<open>The record that \<^verbatim>\<open>_process_discharge_record\<close> builds from the body.\<close>

definition make_discharge_record ::
  "clock \<Rightarrow> json \<Rightarrow> (string \<times> json) list \<Rightarrow> discharge_record" where
  "make_discharge_record now order_sn body =
     \<lparr> dr_order_sn = order_sn,
       dr_start_time = get_or body ''startTime'' JNull,
       dr_stop_time = get_or body ''stopTime'' JNull,
       dr_electAmount = get_or body ''electAmount'' JNull,
       dr_total_money = get_or body ''totalMoney'' (JInt 0),
       dr_start_soc = get_or body ''startSoc'' (JInt 0),
       dr_stop_soc = get_or body ''stopSoc'' (JInt 0),
       dr_duration = get_or body ''chgTime'' (JInt 0),
       dr_rateModelID = get_or body ''rateModelID'' (JInt 0),
       dr_created_at = stamp now \<rparr>"

text \<open>\<^verbatim>\<open>_process_discharge_record\<close>\<close>

definition process_discharge_record :: "clock \<Rightarrow> json \<Rightarrow> session \<Rightarrow> exn option \<times> session" where
  "process_discharge_record now payload s =
     (case dict_get payload ''dataBody'' (JObj []) of
        Inl e \<Rightarrow> (Some e, s)
      | Inr data_body \<Rightarrow>
     (case data_body of
        JObj body \<Rightarrow>
          (let order_sn = get_or body ''orderSn'' JNull in
           if \<not> truthy order_sn then (None, s)
           else
             (let rec = make_discharge_record now order_sn body in
              case hash_key order_sn of
                Inl e \<Rightarrow> (Some e, s)
              | Inr k \<Rightarrow>
                  (let s1 = s\<lparr>discharge_records := (discharge_records s)(k \<mapsto> rec)\<rparr>;
                       s2 = (if k \<notin> set (discharge_order_sns s1)
                             then s1\<lparr>discharge_order_sns := discharge_order_sns s1 @ [k]\<rparr>
                             else s1)
                   in case num_of (dr_total_money rec) of
                        None \<Rightarrow> (Some TypeError, s2)
                      | Some c \<Rightarrow> (None, s2\<lparr>total_money := total_money s2 + c\<rparr>))))
      | _ \<Rightarrow> (Some AttributeError, s)))"

text \<open>The log entry that \<^verbatim>\<open>_handle_event_message\<close> builds.\<close>

definition make_event :: "clock \<Rightarrow> (string \<times> json) list \<Rightarrow> json \<Rightarrow> event" where
  "make_event now header data_body =
     \<lparr> ev_timestamp = get_or header ''timeStamp'' JNull,
       ev_realtime = iso now,
       ev_function = get_or header ''function'' JNull,
       ev_header = JObj header,
       ev_data = data_body \<rparr>"

text \<open>
  \<^verbatim>\<open>_handle_event_message\<close>. The arguments of the call of \<^verbatim>\<open>_send_confirm\<close> are evaluated
  before it: \<^verbatim>\<open>data_body.get("orderSn")\<close> raises when the body is not a dict.
\<close>

definition handle_event_message :: "clock \<Rightarrow> json \<Rightarrow> session \<Rightarrow> exn option \<times> session" where
  "handle_event_message now payload s =
     (case dict_get payload ''header'' (JObj []) of
        Inl e \<Rightarrow> (Some e, s)
      | Inr hd_val \<Rightarrow>
     (case dict_get payload ''dataBody'' (JObj []) of
        Inl e \<Rightarrow> (Some e, s)
      | Inr data_body \<Rightarrow>
     (case hd_val of
        JObj header \<Rightarrow>
          (let func = get_or header ''function'' JNull;
               s1 = s\<lparr>event_logs := event_logs s @ [make_event now header data_body]\<rparr>;
               s2 = (if length (event_logs s1) > 1000
                     then s1\<lparr>event_logs := tl (event_logs s1)\<rparr> else s1);
               (r, s3) = (if func = JStr ''chargeRecord'' then process_charge_record now payload s2
                          else if func = JStr ''dischargeRecord''
                               then process_discharge_record now payload s2
                          else (None, s2))
           in case r of
                Some e \<Rightarrow> (Some e, s3)
              | None \<Rightarrow>
                  (case dict_get data_body ''orderSn'' JNull of
                     Inl e \<Rightarrow> (Some e, s3)
                   | Inr order_sn \<Rightarrow>
                       (let s4 = send_confirm now (get_or header ''index'' JNull) order_sn func s3
                        in (None, s4\<lparr>last_heartbeat := Some (instant now)\<rparr>))))
      | _ \<Rightarrow> (Some AttributeError, s))))"

text \<open>
  The event branch of \<^verbatim>\<open>_on_message\<close> after decoding: the handler runs inside
  \<^verbatim>\<open>try ... except Exception\<close>, so a raise is caught and the session goes on from the state
  the handler left.
\<close>

definition on_event_message :: "clock \<times> json \<Rightarrow> session \<Rightarrow> session" where
  "on_event_message m s = snd (handle_event_message (fst m) (snd m) s)"

fun on_event_messages :: "(clock \<times> json) list \<Rightarrow> session \<Rightarrow> session" where
  "on_event_messages [] s = s"
| "on_event_messages (m # ms) s = on_event_messages ms (on_event_message m s)"

section \<open>Responses and commands\<close>

text \<open>
  \<^verbatim>\<open>msg_index in self.pending_commands\<close>: the keys of the table are the integers that
  \<^verbatim>\<open>send_command\<close> stored, so only an index that hashes to an integer can be found.
\<close>

definition find_pending :: "session \<Rightarrow> key \<Rightarrow> (int \<times> pending_command) option" where
  "find_pending s k =
     (case k of
        KInt n \<Rightarrow> (case pending_commands s n of None \<Rightarrow> None | Some pc \<Rightarrow> Some (n, pc))
      | _ \<Rightarrow> None)"

text \<open>
  \<^verbatim>\<open>_handle_response_message\<close>. The message printed for a matched response reads
  \<^verbatim>\<open>data_body.get('message', ...)\<close>, which raises when the body is not a dict, after the
  entry has been updated.
\<close>

definition handle_response_message :: "json \<Rightarrow> session \<Rightarrow> exn option \<times> session" where
  "handle_response_message payload s =
     (case dict_get payload ''header'' (JObj []) of
        Inl e \<Rightarrow> (Some e, s)
      | Inr header \<Rightarrow>
     (case dict_get payload ''dataBody'' (JObj []) of
        Inl e \<Rightarrow> (Some e, s)
      | Inr data_body \<Rightarrow>
     (case dict_get header ''index'' JNull of
        Inl e \<Rightarrow> (Some e, s)
      | Inr msg_index \<Rightarrow>
     (case hash_key msg_index of
        Inl e \<Rightarrow> (Some e, s)
      | Inr k \<Rightarrow>
     (case find_pending s k of
        Some (n, pc) \<Rightarrow>
          (let s1 = s\<lparr>pending_commands :=
                        (pending_commands s)(n \<mapsto> pc\<lparr>pc_status := Completed,
                                                      pc_response := Some payload\<rparr>)\<rparr>
           in case dict_get data_body ''message'' JNull of
                Inl e \<Rightarrow> (Some e, s1)
              | Inr _ \<Rightarrow> (None, s1))
      | None \<Rightarrow> (None, s))))))"

text \<open>The response branch of \<^verbatim>\<open>_on_message\<close>, which catches what the handler raises.\<close>

definition on_response_message :: "json \<Rightarrow> session \<Rightarrow> session" where
  "on_response_message payload s = snd (handle_response_message payload s)"

fun on_response_messages :: "json list \<Rightarrow> session \<Rightarrow> session" where
  "on_response_messages [] s = s"
| "on_response_messages (p # ps) s = on_response_messages ps (on_response_message p s)"

definition command_payload :: "clock \<Rightarrow> int \<Rightarrow> CommandType \<Rightarrow> json \<Rightarrow> json" where
  "command_payload now msg_index command_type params =
     JObj [(''header'', JObj [(''index'', JInt msg_index),
                              (''version'', JStr ''1.0''),
                              (''function'', JStr (command_value command_type)),
                              (''timestamp'', JStr (stamp now))]),
           (''dataBody'', params)]"

text \<open>\<^verbatim>\<open>send_command\<close>: the returned integer and the session after the call.\<close>

definition send_command :: "clock \<Rightarrow> CommandType \<Rightarrow> json \<Rightarrow> session \<Rightarrow> int \<times> session" where
  "send_command now command_type params s =
     (if \<not> connected s then (-1, s)
      else
        (let s1 = s\<lparr>message_index := message_index s + 1\<rparr>;
             msg_index = message_index s1;
             s2 = s1\<lparr>pending_commands :=
                        (pending_commands s1)(msg_index \<mapsto>
                           \<lparr> pc_type = command_type, pc_params = params,
                             pc_timestamp = instant now, pc_status = Pending,
                             pc_response = None \<rparr>)\<rparr>;
             topic = get_topic s2 REQUEST Publish
         in (msg_index, publish topic (command_payload now msg_index command_type params) s2)))"

definition rate_model_payload ::
  "clock \<Rightarrow> int \<Rightarrow> string \<Rightarrow> int \<Rightarrow> string \<Rightarrow> json list \<Rightarrow> json list \<Rightarrow> string \<Rightarrow> json" where
  "rate_model_payload now idx rate_model_id effect effect_date rate_list rate_details_list
       function_id =
     JObj [(''header'', JObj [(''version'', JStr ''V1.0.0''),
                              (''timeStamp'', JStr (stamp now)),
                              (''index'', JInt idx),
                              (''function'', JStr function_id),
                              (''reason'', JInt 0)]),
           (''dataBody'', JObj [(''rateModelID'', JStr rate_model_id),
                                (''effect'', JInt effect),
                                (''effectDate'', JStr effect_date),
                                (''rateList'', JArr rate_list),
                                (''rateDetailsList'', JArr rate_details_list)])]"

text \<open>\<^verbatim>\<open>send_rate_model_set\<close>\<close>

definition send_rate_model_set ::
  "clock \<Rightarrow> string \<Rightarrow> int \<Rightarrow> string \<Rightarrow> json list \<Rightarrow> json list \<Rightarrow> string \<Rightarrow> session
     \<Rightarrow> int \<times> session" where
  "send_rate_model_set now rate_model_id effect effect_date rate_list rate_details_list
       function_id s =
     (if \<not> connected s then (-1, s)
      else if length rate_list \<noteq> length rate_details_list
              \<or> \<not> (1 \<le> length rate_list \<and> length rate_list \<le> 12)
      then (-1, s)
      else
        (let payload = rate_model_payload now (message_index s) rate_model_id effect
                         effect_date rate_list rate_details_list function_id;
             s1 = s\<lparr>message_index := message_index s + 1\<rparr>;
             cmd_id = message_index s1;
             s2 = s1\<lparr>command_history := command_history s1 @
                        [\<lparr> he_id = cmd_id, he_payload = payload, he_timestamp = stamp now \<rparr>]\<rparr>;
             topic = get_topic s2 REQUEST Publish
         in (cmd_id, publish topic payload s2)))"

section \<open>Queries\<close>

text \<open>
  \<^verbatim>\<open>check_connection_status\<close>, read at the instant \<open>now\<close>. Instants are in microseconds
  and the timeout in seconds; \<^verbatim>\<open>total_seconds()\<close> of the difference is compared with it,
  and the comparison is taken exactly, on the microseconds.
\<close>

definition check_connection_status :: "int \<Rightarrow> session \<Rightarrow> bool" where
  "check_connection_status now s =
     (if \<not> connected s then False
      else case last_heartbeat s of
             None \<Rightarrow> True
           | Some t \<Rightarrow> now - t \<le> connection_timeout s * 1000000)"

text \<open>
  The comprehension \<^verbatim>\<open>[records[sn] for sn in recent_sns if sn in records]\<close>.
\<close>

definition records_of :: "(key \<rightharpoonup> 'r) \<Rightarrow> key list \<Rightarrow> 'r list" where
  "records_of m sns = List.map_filter m sns"

text \<open>\<^verbatim>\<open>get_charge_records\<close>; the filter \<^verbatim>\<open>order_sn=None\<close> is \<open>JNull\<close>.\<close>

definition get_charge_records :: "int \<Rightarrow> json \<Rightarrow> session \<Rightarrow> exn + charge_record list" where
  "get_charge_records count order_sn s =
     (if truthy order_sn then
        (case hash_key order_sn of
           Inl e \<Rightarrow> Inl e
         | Inr k \<Rightarrow> Inr (case charge_records s k of Some r \<Rightarrow> [r] | None \<Rightarrow> []))
      else
        (let recent_sns = rev (slice_from (charge_order_sns s) (- count))
         in Inr (records_of (charge_records s) recent_sns)))"

text \<open>\<^verbatim>\<open>get_discharge_records\<close>\<close>

definition get_discharge_records ::
  "int \<Rightarrow> json \<Rightarrow> session \<Rightarrow> exn + discharge_record list" where
  "get_discharge_records count order_sn s =
     (if truthy order_sn then
        (case hash_key order_sn of
           Inl e \<Rightarrow> Inl e
         | Inr k \<Rightarrow> Inr (case discharge_records s k of Some r \<Rightarrow> [r] | None \<Rightarrow> []))
      else
        (let recent_sns = rev (slice_from (discharge_order_sns s) (- count))
         in Inr (records_of (discharge_records s) recent_sns)))"

section \<open>Auxiliary definitions for the statements\<close>

text \<open>
  The log entry that \<^verbatim>\<open>_handle_event_message\<close> appends for a message: it exists when the
  payload is a dict whose header is a dict, otherwise the handler raises before appending.
\<close>

definition logged_event :: "clock \<times> json \<Rightarrow> event option" where
  "logged_event m =
     (case snd m of
        JObj kvs \<Rightarrow>
          (case get_or kvs ''header'' (JObj []) of
             JObj header \<Rightarrow> Some (make_event (fst m) header (get_or kvs ''dataBody'' (JObj [])))
           | _ \<Rightarrow> None)
      | _ \<Rightarrow> None)"

text \<open>
  The two steps on the log, and the choice between the two record handlers, named so that
  the handler can be unfolded in one step (lemma \<open>handle_event_message_object\<close>).
\<close>

definition log_event :: "event \<Rightarrow> session \<Rightarrow> session" where
  "log_event e s =
     (if length (event_logs s @ [e]) > 1000 then s\<lparr>event_logs := tl (event_logs s @ [e])\<rparr>
      else s\<lparr>event_logs := event_logs s @ [e]\<rparr>)"

definition process_record :: "clock \<Rightarrow> json \<Rightarrow> json \<Rightarrow> session \<Rightarrow> exn option \<times> session" where
  "process_record now func payload s =
     (if func = JStr ''chargeRecord'' then process_charge_record now payload s
      else if func = JStr ''dischargeRecord'' then process_discharge_record now payload s
      else (None, s))"

text \<open>
  An event message of function \<open>fn\<close> that carries the order identifier \<open>order_sn\<close>:
  the payload and its header are dicts, the header's function is \<open>fn\<close>, the body is a dict
  and its \<^verbatim>\<open>orderSn\<close> is \<open>order_sn\<close>. \<open>body_of\<close> is the body of such a message.
\<close>

definition body_of :: "json \<Rightarrow> (string \<times> json) list" where
  "body_of p =
     (case p of
        JObj kvs \<Rightarrow> (case get_or kvs ''dataBody'' (JObj []) of JObj body \<Rightarrow> body | _ \<Rightarrow> [])
      | _ \<Rightarrow> [])"

definition record_event :: "string \<Rightarrow> json \<Rightarrow> json \<Rightarrow> bool" where
  "record_event fn order_sn p =
     (case p of
        JObj kvs \<Rightarrow>
          (case get_or kvs ''header'' (JObj []) of
             JObj header \<Rightarrow> get_or header ''function'' JNull = JStr fn
           | _ \<Rightarrow> False)
          \<and> (case get_or kvs ''dataBody'' (JObj []) of
               JObj body \<Rightarrow> get_or body ''orderSn'' JNull = order_sn
             | _ \<Rightarrow> False)
      | _ \<Rightarrow> False)"

text \<open>The header of an event message whose payload and header are dicts.\<close>

definition header_of :: "json \<Rightarrow> (string \<times> json) list" where
  "header_of p =
     (case p of
        JObj kvs \<Rightarrow> (case get_or kvs ''header'' (JObj []) of JObj header \<Rightarrow> header | _ \<Rightarrow> [])
      | _ \<Rightarrow> [])"

text \<open>
  The event messages that \<^verbatim>\<open>_handle_event_message\<close> processes to its end: the payload, its
  header and its body are dicts and, when the function is \<^verbatim>\<open>chargeRecord\<close> or
  \<^verbatim>\<open>dischargeRecord\<close> and the order identifier is truthy, the identifier is hashable and
  the cost is a number. On any other message the handler raises.
\<close>

definition event_accepted :: "json \<Rightarrow> bool" where
  "event_accepted p =
     (case p of
        JObj kvs \<Rightarrow>
          (case get_or kvs ''header'' (JObj []) of
             JObj header \<Rightarrow>
               (case get_or kvs ''dataBody'' (JObj []) of
                  JObj body \<Rightarrow>
                    (let func = get_or header ''function'' JNull;
                         order_sn = get_or body ''orderSn'' JNull
                     in if (func = JStr ''chargeRecord'' \<or> func = JStr ''dischargeRecord'')
                           \<and> truthy order_sn
                        then (case hash_key order_sn of
                                Inl _ \<Rightarrow> False
                              | Inr _ \<Rightarrow>
                                  (case num_of (get_or body ''totalMoney'' (JInt 0)) of
                                     None \<Rightarrow> False
                                   | Some _ \<Rightarrow> True))
                        else True)
                | _ \<Rightarrow> False)
           | _ \<Rightarrow> False)
      | _ \<Rightarrow> False)"

text \<open>
  What can happen to a session, one call at a time: an inbound event or response message
  (the handlers run under the \<^verbatim>\<open>try ... except\<close> of \<^verbatim>\<open>_on_message\<close>), a call of
  \<^verbatim>\<open>send_command\<close> or of \<^verbatim>\<open>send_rate_model_set\<close>, and a change of the connectivity flag
  (the connect callback, a heartbeat, \<^verbatim>\<open>disconnect\<close>).
\<close>

datatype action =
    Event clock json
  | Response json
  | Command clock CommandType json
  | Rate_model clock string int string "json list" "json list" string
  | Connection bool

fun step :: "action \<Rightarrow> session \<Rightarrow> session" where
  "step (Event now p) s = on_event_message (now, p) s"
| "step (Response p) s = on_response_message p s"
| "step (Command now command_type params) s = snd (send_command now command_type params s)"
| "step (Rate_model now rid eff ed rate_list rate_details_list fid) s =
     snd (send_rate_model_set now rid eff ed rate_list rate_details_list fid s)"
| "step (Connection b) s = s\<lparr>connected := b\<rparr>"

fun steps :: "action list \<Rightarrow> session \<Rightarrow> session" where
  "steps [] s = s"
| "steps (a # as) s = steps as (step a s)"

text \<open>
  Every key of the pending-commands table is at most the message index: the table is empty
  in a new session and \<^verbatim>\<open>send_command\<close> stores under the index it has just incremented.
\<close>

definition pending_bounded :: "session \<Rightarrow> bool" where
  "pending_bounded s = (\<forall>k. pending_commands s k \<noteq> None \<longrightarrow> k \<le> message_index s)"

section \<open>The handler, unfolded\<close>

lemma event_logs_process_charge_record [simp]:
  "event_logs (snd (process_charge_record now p s)) = event_logs s"
  by (simp add: process_charge_record_def Let_def split: sum.splits json.splits option.splits)

lemma event_logs_process_discharge_record [simp]:
  "event_logs (snd (process_discharge_record now p s)) = event_logs s"
  by (simp add: process_discharge_record_def Let_def split: sum.splits json.splits option.splits)

lemma event_logs_send_confirm [simp]:
  "event_logs (send_confirm now i sn f s) = event_logs s"
  by (simp add: send_confirm_def publish_def)

lemma handle_event_message_object:
  assumes "get_or kvs ''header'' (JObj []) = JObj header"
  shows "handle_event_message now (JObj kvs) s =
           (let data_body = get_or kvs ''dataBody'' (JObj []);
                func = get_or header ''function'' JNull;
                rs = process_record now func (JObj kvs)
                       (log_event (make_event now header data_body) s)
            in case fst rs of
                 Some e \<Rightarrow> (Some e, snd rs)
               | None \<Rightarrow>
                   (case dict_get data_body ''orderSn'' JNull of
                      Inl e \<Rightarrow> (Some e, snd rs)
                    | Inr order_sn \<Rightarrow>
                        (None, (send_confirm now (get_or header ''index'' JNull) order_sn func
                                  (snd rs))\<lparr>last_heartbeat := Some (instant now)\<rparr>)))"
  unfolding handle_event_message_def process_record_def log_event_def
  by (simp add: dict_get_def assms Let_def case_prod_beta
        split: option.split sum.split json.split)

lemma handle_event_message_not_logged:
  assumes "logged_event (now, p) = None"
  shows "handle_event_message now p s = (Some AttributeError, s)"
  using assms
  by (auto simp: handle_event_message_def logged_event_def dict_get_def split: json.splits)

lemma event_logs_process_record [simp]:
  "event_logs (snd (process_record now func p s)) = event_logs s"
  by (simp add: process_record_def)

lemma event_logs_handle_event_message:
  "event_logs (snd (handle_event_message now p s)) =
     (case logged_event (now, p) of
        None \<Rightarrow> event_logs s
      | Some e \<Rightarrow> event_logs (log_event e s))"
proof (cases "logged_event (now, p)")
  case None
  then show ?thesis
    by (simp add: handle_event_message_not_logged)
next
  case (Some e)
  then obtain kvs header where p: "p = JObj kvs"
    and h: "get_or kvs ''header'' (JObj []) = JObj header"
    and e: "e = make_event now header (get_or kvs ''dataBody'' (JObj []))"
    by (auto simp: logged_event_def split: json.splits)
  show ?thesis
    unfolding p handle_event_message_object [OF h]
    by (simp add: Let_def e [symmetric] Some [unfolded p] split: option.splits sum.splits)
qed

lemma event_logs_log_event_below:
  "length (event_logs s) < 1000 \<Longrightarrow> event_logs (log_event e s) = event_logs s @ [e]"
  by (simp add: log_event_def)

lemma event_logs_log_event_full:
  assumes "length (event_logs s) = 1000"
  shows "event_logs (log_event e s) = tl (event_logs s) @ [e]"
proof -
  from assms have "event_logs s \<noteq> []" by auto
  with assms show ?thesis by (simp add: log_event_def)
qed

lemma length_event_logs_log_event:
  assumes "length (event_logs s) \<le> 1000"
  shows "length (event_logs (log_event e s)) \<le> 1000"
proof (cases "length (event_logs s) = 1000")
  case True
  then show ?thesis by (simp add: event_logs_log_event_full)
next
  case False
  with assms have "length (event_logs s) < 1000" by simp
  then show ?thesis by (simp add: event_logs_log_event_below)
qed

lemma event_logs_bound:
  assumes "length (event_logs s) \<le> 1000"
  shows "length (event_logs (snd (handle_event_message now p s))) \<le> 1000"
  using assms
  by (simp add: event_logs_handle_event_message length_event_logs_log_event split: option.splits)

lemma event_logs_on_event_messages:
  "length (event_logs s) \<le> 1000 \<Longrightarrow> map logged_event ms = map Some es \<Longrightarrow>
   event_logs (on_event_messages ms s) =
     drop (length (event_logs s) + length es - 1000) (event_logs s @ es)"
proof (induction ms arbitrary: s es)
  case Nil
  then show ?case by simp
next
  case (Cons m ms)
  then obtain e es' where es: "es = e # es'" and e: "logged_event m = Some e"
    and rest: "map logged_event ms = map Some es'"
    by (cases es) auto
  let ?s1 = "on_event_message m s"
  have l1: "event_logs ?s1 = event_logs (log_event e s)"
    using e event_logs_handle_event_message [of "fst m" "snd m" s]
    by (simp add: on_event_message_def)
  have b1: "length (event_logs ?s1) \<le> 1000"
    using Cons.prems(1) by (simp add: l1 length_event_logs_log_event)
  have step: "event_logs (on_event_messages (m # ms) s) =
          drop (length (event_logs ?s1) + length es' - 1000) (event_logs ?s1 @ es')"
    using Cons.IH [OF b1 rest] by simp
  show ?case
  proof (cases "length (event_logs s) = 1000")
    case True
    then have ne: "event_logs s \<noteq> []" by auto
    have "event_logs ?s1 = tl (event_logs s) @ [e]"
      using True by (simp add: l1 event_logs_log_event_full)
    with step True have "event_logs (on_event_messages (m # ms) s) =
        drop (length es') (tl (event_logs s) @ e # es')"
      by simp
    also have "\<dots> = drop (length es') (tl (event_logs s @ e # es'))"
      by (simp only: tl_append2 [OF ne])
    also have "\<dots> = drop (Suc (length es')) (event_logs s @ e # es')"
      by (simp only: drop_Suc)
    finally show ?thesis using True by (simp add: es)
  next
    case False
    with Cons.prems(1) have lt: "length (event_logs s) < 1000" by simp
    then have "event_logs ?s1 = event_logs s @ [e]"
      by (simp add: l1 event_logs_log_event_below)
    with step show ?thesis by (simp add: es)
  qed
qed

section \<open>The event ledger\<close>

text \<open>
  Claim C4. The event ledger is a bounded FIFO of capacity 1000: every processing of an
  event message keeps its length at most 1000, and after 1001 event records have been
  appended to an empty ledger it holds exactly the last 1000 of them in receipt order, the
  oldest one evicted.
\<close>

theorem event_logs_bounded_fifo:
  "(length (event_logs s) \<le> 1000 \<longrightarrow>
      length (event_logs (snd (handle_event_message now p s))) \<le> 1000)
   \<and> (event_logs s = [] \<and> length es = 1001 \<and> map logged_event ms = map Some es \<longrightarrow>
        event_logs (on_event_messages ms s) = tl es
        \<and> length (event_logs (on_event_messages ms s)) = 1000)"
proof (intro conjI impI)
  assume "length (event_logs s) \<le> 1000"
  then show "length (event_logs (snd (handle_event_message now p s))) \<le> 1000"
    by (rule event_logs_bound)
next
  assume a: "event_logs s = [] \<and> length es = 1001 \<and> map logged_event ms = map Some es"
  then have "event_logs (on_event_messages ms s) = drop 1 es"
    using event_logs_on_event_messages [of s ms es] by simp
  then show t: "event_logs (on_event_messages ms s) = tl es" by (simp add: drop_Suc)
  show "length (event_logs (on_event_messages ms s)) = 1000" using a by (simp add: t)
qed

theorem event_logs_bounded_fifo_witness:
  "length (event_logs (snd (handle_event_message \<lparr>instant = 0, stamp = ''t'', iso = ''i''\<rparr>
       (JObj []) (init ''P'' ''D'')))) \<le> 1000
   \<and> event_logs (on_event_messages
        (map (\<lambda>i. (\<lparr>instant = int i, stamp = ''t'', iso = ''i''\<rparr>,
                   JObj [(''header'', JObj [(''index'', JInt (int i))])])) [0..<1001])
        (init ''P'' ''D''))
      = map (\<lambda>i. \<lparr>ev_timestamp = JNull, ev_realtime = ''i'', ev_function = JNull,
                   ev_header = JObj [(''index'', JInt (int i))], ev_data = JObj []\<rparr>) [1..<1001]"
proof -
  let ?ms = "map (\<lambda>i. (\<lparr>instant = int i, stamp = ''t'', iso = ''i''\<rparr>,
                   JObj [(''header'', JObj [(''index'', JInt (int i))])])) [0..<1001]"
  let ?es = "map (\<lambda>i. \<lparr>ev_timestamp = JNull, ev_realtime = ''i'', ev_function = JNull,
                   ev_header = JObj [(''index'', JInt (int i))], ev_data = JObj []\<rparr>) [0..<1001]"
  have h1: "event_logs (init ''P'' ''D'') = []" by (simp add: init_def)
  have h2: "length ?es = 1001" by simp
  have h3: "map logged_event ?ms = map Some ?es"
    by (simp add: logged_event_def get_or_def make_event_def)
  have h4: "tl ?es = map (\<lambda>i. \<lparr>ev_timestamp = JNull, ev_realtime = ''i'', ev_function = JNull,
                   ev_header = JObj [(''index'', JInt (int i))], ev_data = JObj []\<rparr>) [1..<1001]"
    by (simp add: map_tl [symmetric] del: upt.simps)
  show ?thesis
    using event_logs_bounded_fifo [of "init ''P'' ''D''" "\<lparr>instant = 0, stamp = ''t'', iso = ''i''\<rparr>"
        "JObj []" ?es ?ms] h1 h2 h3 h4
    by simp
qed

section \<open>Liveness\<close>

text \<open>
  Claim C5. The liveness query is false whenever the connectivity flag is false, whatever
  the elapsed time; it is true when the flag is true and no last-seen instant is recorded;
  otherwise it is false exactly when the time since the last-seen instant exceeds the
  configured timeout, and true at or below the timeout.
\<close>

theorem check_connection_status_liveness:
  "(\<not> connected s \<longrightarrow> \<not> check_connection_status now s)
   \<and> (connected s \<and> last_heartbeat s = None \<longrightarrow> check_connection_status now s)
   \<and> (connected s \<and> last_heartbeat s = Some t \<longrightarrow>
        (check_connection_status now s \<longleftrightarrow> \<not> (now - t > connection_timeout s * 1000000)))"
  by (auto simp: check_connection_status_def)

theorem check_connection_status_liveness_witness:
  "\<not> check_connection_status 999 (init ''P'' ''D'')
   \<and> check_connection_status 999 ((init ''P'' ''D'')\<lparr>connected := True\<rparr>)
   \<and> check_connection_status 120000000
        ((init ''P'' ''D'')\<lparr>connected := True, last_heartbeat := Some 0\<rparr>)
   \<and> \<not> check_connection_status 120000001
        ((init ''P'' ''D'')\<lparr>connected := True, last_heartbeat := Some 0\<rparr>)"
  using check_connection_status_liveness [of "init ''P'' ''D''" 999 0]
    check_connection_status_liveness [of "(init ''P'' ''D'')\<lparr>connected := True\<rparr>" 999 0]
    check_connection_status_liveness
      [of "(init ''P'' ''D'')\<lparr>connected := True, last_heartbeat := Some 0\<rparr>" 120000000 0]
    check_connection_status_liveness
      [of "(init ''P'' ''D'')\<lparr>connected := True, last_heartbeat := Some 0\<rparr>" 120000001 0]
  by (simp add: init_def)

section \<open>Issuing commands\<close>

text \<open>
  Claim C6. For every command type and parameters, a command issued while the connectivity
  flag is false returns the sentinel \<open>-1\<close>, adds nothing to the pending-commands table,
  publishes nothing and leaves the whole session as it was.
\<close>

theorem send_command_disconnected:
  assumes "\<not> connected s"
  shows "fst (send_command now command_type params s) = - 1
         \<and> snd (send_command now command_type params s) = s
         \<and> pending_commands (snd (send_command now command_type params s)) = pending_commands s
         \<and> published (snd (send_command now command_type params s)) = published s"
  using assms by (simp add: send_command_def)

theorem send_command_disconnected_witness:
  "\<not> connected (init ''P'' ''D'')
   \<and> fst (send_command \<lparr>instant = 0, stamp = ''t'', iso = ''i''\<rparr> POWER_CONTROL (JObj [])
           (init ''P'' ''D'')) = - 1
   \<and> published (snd (send_command \<lparr>instant = 0, stamp = ''t'', iso = ''i''\<rparr> POWER_CONTROL (JObj [])
           (init ''P'' ''D''))) = []"
  using send_command_disconnected
    [of "init ''P'' ''D''" "\<lparr>instant = 0, stamp = ''t'', iso = ''i''\<rparr>" POWER_CONTROL "JObj []"]
  by (simp add: init_def)

text \<open>
  Claim C7. A rate-model request whose two lists differ in length, or whose rate list has
  a length outside 1..12, returns the sentinel \<open>-1\<close> with the session unchanged, so
  nothing is published; a request of a connected session with equal lengths in 1..12 passes
  the check and is published.
\<close>

theorem send_rate_model_set_validation:
  "(length rate_list \<noteq> length rate_details_list
      \<or> \<not> (1 \<le> length rate_list \<and> length rate_list \<le> 12) \<longrightarrow>
      send_rate_model_set now rid eff ed rate_list rate_details_list fid s = (- 1, s))
   \<and> (connected s \<and> length rate_list = length rate_details_list
        \<and> 1 \<le> length rate_list \<and> length rate_list \<le> 12 \<longrightarrow>
      published (snd (send_rate_model_set now rid eff ed rate_list rate_details_list fid s))
        = published s @
            [(get_topic s REQUEST Publish,
              rate_model_payload now (message_index s) rid eff ed rate_list rate_details_list fid)])"
  by (auto simp: send_rate_model_set_def Let_def publish_def get_topic_def)

theorem send_rate_model_set_validation_witness:
  "send_rate_model_set \<lparr>instant = 0, stamp = ''t'', iso = ''i''\<rparr> ''m'' 1 ''d''
       [JInt 1, JInt 2, JInt 3, JInt 4, JInt 5] [JInt 1, JInt 2, JInt 3, JInt 4] ''rateModeSetReq''
       ((init ''P'' ''D'')\<lparr>connected := True\<rparr>)
     = (- 1, (init ''P'' ''D'')\<lparr>connected := True\<rparr>)
   \<and> length (published (snd (send_rate_model_set \<lparr>instant = 0, stamp = ''t'', iso = ''i''\<rparr>
        ''m'' 1 ''d'' [JInt 1] [JInt 2] ''rateModeSetReq''
        ((init ''P'' ''D'')\<lparr>connected := True\<rparr>)))) = 1"
  using send_rate_model_set_validation
      [of "[JInt 1, JInt 2, JInt 3, JInt 4, JInt 5]" "[JInt 1, JInt 2, JInt 3, JInt 4]"
          "\<lparr>instant = 0, stamp = ''t'', iso = ''i''\<rparr>" "''m''" 1 "''d''" "''rateModeSetReq''"
          "(init ''P'' ''D'')\<lparr>connected := True\<rparr>"]
    send_rate_model_set_validation
      [of "[JInt 1]" "[JInt 2]"
          "\<lparr>instant = 0, stamp = ''t'', iso = ''i''\<rparr>" "''m''" 1 "''d''" "''rateModeSetReq''"
          "(init ''P'' ''D'')\<lparr>connected := True\<rparr>"]
  by (simp add: init_def)

section \<open>Charge and discharge records\<close>

lemma send_confirm_fields [simp]:
  "charge_records (send_confirm now i sn f s) = charge_records s"
  "discharge_records (send_confirm now i sn f s) = discharge_records s"
  "charge_order_sns (send_confirm now i sn f s) = charge_order_sns s"
  "discharge_order_sns (send_confirm now i sn f s) = discharge_order_sns s"
  "total_money (send_confirm now i sn f s) = total_money s"
  "pending_commands (send_confirm now i sn f s) = pending_commands s"
  "message_index (send_confirm now i sn f s) = message_index s"
  by (simp_all add: send_confirm_def publish_def)

lemma log_event_fields [simp]:
  "charge_records (log_event e s) = charge_records s"
  "discharge_records (log_event e s) = discharge_records s"
  "charge_order_sns (log_event e s) = charge_order_sns s"
  "discharge_order_sns (log_event e s) = discharge_order_sns s"
  "total_money (log_event e s) = total_money s"
  "pending_commands (log_event e s) = pending_commands s"
  "message_index (log_event e s) = message_index s"
  "published (log_event e s) = published s"
  by (simp_all add: log_event_def)

lemma process_charge_record_present:
  assumes "get_or kvs ''dataBody'' (JObj []) = JObj body"
    and "truthy (get_or body ''orderSn'' JNull)"
    and "hash_key (get_or body ''orderSn'' JNull) = Inr k"
  shows "process_charge_record now (JObj kvs) s =
           (let rec = make_charge_record now (get_or body ''orderSn'' JNull) body;
                s2 = s\<lparr>charge_records := (charge_records s)(k \<mapsto> rec),
                       charge_order_sns := (if k \<in> set (charge_order_sns s)
                                            then charge_order_sns s
                                            else charge_order_sns s @ [k])\<rparr>
            in case num_of (cr_total_money rec) of
                 None \<Rightarrow> (Some TypeError, s2)
               | Some c \<Rightarrow> (None, s2\<lparr>total_money := total_money s + c\<rparr>))"
  using assms
  by (simp add: process_charge_record_def dict_get_def Let_def split: option.split)

lemma process_discharge_record_present:
  assumes "get_or kvs ''dataBody'' (JObj []) = JObj body"
    and "truthy (get_or body ''orderSn'' JNull)"
    and "hash_key (get_or body ''orderSn'' JNull) = Inr k"
  shows "process_discharge_record now (JObj kvs) s =
           (let rec = make_discharge_record now (get_or body ''orderSn'' JNull) body;
                s2 = s\<lparr>discharge_records := (discharge_records s)(k \<mapsto> rec),
                       discharge_order_sns := (if k \<in> set (discharge_order_sns s)
                                               then discharge_order_sns s
                                               else discharge_order_sns s @ [k])\<rparr>
            in case num_of (dr_total_money rec) of
                 None \<Rightarrow> (Some TypeError, s2)
               | Some c \<Rightarrow> (None, s2\<lparr>total_money := total_money s + c\<rparr>))"
  using assms
  by (simp add: process_discharge_record_def dict_get_def Let_def split: option.split)

text \<open>What the event handler leaves in the record tables is what the record handler left.\<close>

lemma handle_event_message_records:
  fixes now :: clock and s :: session
  assumes "get_or kvs ''header'' (JObj []) = JObj header"
  defines "rs \<equiv> process_record now (get_or header ''function'' JNull) (JObj kvs)
                  (log_event (make_event now header (get_or kvs ''dataBody'' (JObj []))) s)"
  shows "charge_records (snd (handle_event_message now (JObj kvs) s)) = charge_records (snd rs)"
    and "discharge_records (snd (handle_event_message now (JObj kvs) s)) = discharge_records (snd rs)"
    and "charge_order_sns (snd (handle_event_message now (JObj kvs) s)) = charge_order_sns (snd rs)"
    and "discharge_order_sns (snd (handle_event_message now (JObj kvs) s))
           = discharge_order_sns (snd rs)"
    and "total_money (snd (handle_event_message now (JObj kvs) s)) = total_money (snd rs)"
  unfolding handle_event_message_object [OF assms(1)] rs_def
  by (simp_all add: Let_def split: option.split sum.split)

lemma record_eventE:
  assumes "record_event fn order_sn p"
  obtains kvs header body where "p = JObj kvs"
    and "get_or kvs ''header'' (JObj []) = JObj header"
    and "get_or header ''function'' JNull = JStr fn"
    and "get_or kvs ''dataBody'' (JObj []) = JObj body"
    and "get_or body ''orderSn'' JNull = order_sn"
    and "body_of p = body"
  using assms
  by (auto simp: record_event_def body_of_def split: json.splits)

lemma charge_event_step:
  assumes "record_event ''chargeRecord'' order_sn p" and "truthy order_sn"
    and "hash_key order_sn = Inr k"
  shows "charge_records (snd (handle_event_message now p s))
           = (charge_records s)(k \<mapsto> make_charge_record now order_sn (body_of p))"
    and "charge_order_sns (snd (handle_event_message now p s))
           = (if k \<in> set (charge_order_sns s) then charge_order_sns s
              else charge_order_sns s @ [k])"
    and "total_money (snd (handle_event_message now p s))
           = (case num_of (get_or (body_of p) ''totalMoney'' (JInt 0)) of
                None \<Rightarrow> total_money s
              | Some c \<Rightarrow> total_money s + c)"
proof -
  from assms(1) obtain kvs header body where p: "p = JObj kvs"
    and h: "get_or kvs ''header'' (JObj []) = JObj header"
    and f: "get_or header ''function'' JNull = JStr ''chargeRecord''"
    and b: "get_or kvs ''dataBody'' (JObj []) = JObj body"
    and o: "get_or body ''orderSn'' JNull = order_sn"
    and bo: "body_of p = body"
    by (rule record_eventE)
  note pr = process_charge_record_present [OF b, unfolded o, OF assms(2,3)]
  show "charge_records (snd (handle_event_message now p s))
           = (charge_records s)(k \<mapsto> make_charge_record now order_sn (body_of p))"
    unfolding p handle_event_message_records [OF h] f process_record_def
    by (simp add: pr Let_def bo [unfolded p] split: option.split)
  show "charge_order_sns (snd (handle_event_message now p s))
           = (if k \<in> set (charge_order_sns s) then charge_order_sns s
              else charge_order_sns s @ [k])"
    unfolding p handle_event_message_records [OF h] f process_record_def
    by (simp add: pr Let_def split: option.split)
  show "total_money (snd (handle_event_message now p s))
           = (case num_of (get_or (body_of p) ''totalMoney'' (JInt 0)) of
                None \<Rightarrow> total_money s
              | Some c \<Rightarrow> total_money s + c)"
    unfolding p handle_event_message_records [OF h] f process_record_def
    by (simp add: pr Let_def bo [unfolded p] make_charge_record_def split: option.split)
qed

lemma discharge_event_step:
  assumes "record_event ''dischargeRecord'' order_sn p" and "truthy order_sn"
    and "hash_key order_sn = Inr k"
  shows "discharge_records (snd (handle_event_message now p s))
           = (discharge_records s)(k \<mapsto> make_discharge_record now order_sn (body_of p))"
    and "discharge_order_sns (snd (handle_event_message now p s))
           = (if k \<in> set (discharge_order_sns s) then discharge_order_sns s
              else discharge_order_sns s @ [k])"
    and "total_money (snd (handle_event_message now p s))
           = (case num_of (get_or (body_of p) ''totalMoney'' (JInt 0)) of
                None \<Rightarrow> total_money s
              | Some c \<Rightarrow> total_money s + c)"
proof -
  from assms(1) obtain kvs header body where p: "p = JObj kvs"
    and h: "get_or kvs ''header'' (JObj []) = JObj header"
    and f: "get_or header ''function'' JNull = JStr ''dischargeRecord''"
    and b: "get_or kvs ''dataBody'' (JObj []) = JObj body"
    and o: "get_or body ''orderSn'' JNull = order_sn"
    and bo: "body_of p = body"
    by (rule record_eventE)
  note pr = process_discharge_record_present [OF b, unfolded o, OF assms(2,3)]
  show "discharge_records (snd (handle_event_message now p s))
           = (discharge_records s)(k \<mapsto> make_discharge_record now order_sn (body_of p))"
    unfolding p handle_event_message_records [OF h] f process_record_def
    by (simp add: pr Let_def bo [unfolded p] split: option.split)
  show "discharge_order_sns (snd (handle_event_message now p s))
           = (if k \<in> set (discharge_order_sns s) then discharge_order_sns s
              else discharge_order_sns s @ [k])"
    unfolding p handle_event_message_records [OF h] f process_record_def
    by (simp add: pr Let_def split: option.split)
  show "total_money (snd (handle_event_message now p s))
           = (case num_of (get_or (body_of p) ''totalMoney'' (JInt 0)) of
                None \<Rightarrow> total_money s
              | Some c \<Rightarrow> total_money s + c)"
    unfolding p handle_event_message_records [OF h] f process_record_def
    by (simp add: pr Let_def bo [unfolded p] make_discharge_record_def split: option.split)
qed



lemma on_event_messages_snoc:
  "on_event_messages (ms @ [m]) s = on_event_message m (on_event_messages ms s)"
  by (induction ms arbitrary: s) simp_all

lemma count_list_distinct:
  "distinct xs \<Longrightarrow> count_list xs x = (if x \<in> set xs then 1 else 0)"
  by (induction xs) auto

lemma distinct_charge_order_sns_process:
  "distinct (charge_order_sns s) \<Longrightarrow>
   distinct (charge_order_sns (snd (process_charge_record now p s)))"
  by (simp add: process_charge_record_def Let_def split: sum.split json.split option.split)

lemma charge_order_sns_process_discharge [simp]:
  "charge_order_sns (snd (process_discharge_record now p s)) = charge_order_sns s"
  by (simp add: process_discharge_record_def Let_def split: sum.split json.split option.split)

lemma distinct_discharge_order_sns_process:
  "distinct (discharge_order_sns s) \<Longrightarrow>
   distinct (discharge_order_sns (snd (process_discharge_record now p s)))"
  by (simp add: process_discharge_record_def Let_def split: sum.split json.split option.split)

lemma discharge_order_sns_process_charge [simp]:
  "discharge_order_sns (snd (process_charge_record now p s)) = discharge_order_sns s"
  by (simp add: process_charge_record_def Let_def split: sum.split json.split option.split)

text \<open>
  The two index lists never hold an identifier twice: they are empty in a new session, and
  every event message, whatever its content, keeps them free of duplicates.
\<close>

lemma distinct_order_sns_init:
  "distinct (charge_order_sns (init pc dc)) \<and> distinct (discharge_order_sns (init pc dc))"
  by (simp add: init_def)

lemma distinct_order_sns_handle_event_message:
  assumes "distinct (charge_order_sns s)" and "distinct (discharge_order_sns s)"
  shows "distinct (charge_order_sns (snd (handle_event_message now p s)))
         \<and> distinct (discharge_order_sns (snd (handle_event_message now p s)))"
proof (cases "logged_event (now, p)")
  case None
  then show ?thesis using assms by (simp add: handle_event_message_not_logged)
next
  case (Some e)
  then obtain kvs header where p: "p = JObj kvs"
    and h: "get_or kvs ''header'' (JObj []) = JObj header"
    by (auto simp: logged_event_def split: json.splits)
  show ?thesis
    unfolding p handle_event_message_records [OF h] process_record_def
    using assms
    by (simp add: distinct_charge_order_sns_process distinct_discharge_order_sns_process)
qed

lemma charge_events_distinct:
  "\<forall>m\<in>set ms. record_event ''chargeRecord'' order_sn (snd m) \<Longrightarrow> truthy order_sn \<Longrightarrow>
   hash_key order_sn = Inr k \<Longrightarrow> distinct (charge_order_sns s) \<Longrightarrow>
   distinct (charge_order_sns (on_event_messages ms s))"
proof (induction ms arbitrary: s)
  case Nil
  then show ?case by simp
next
  case (Cons m ms)
  have "distinct (charge_order_sns (on_event_message m s))"
    using Cons.prems charge_event_step(2) [of order_sn "snd m" k "fst m" s]
    by (simp add: on_event_message_def)
  with Cons show ?case by simp
qed

lemma discharge_events_distinct:
  "\<forall>m\<in>set ms. record_event ''dischargeRecord'' order_sn (snd m) \<Longrightarrow> truthy order_sn \<Longrightarrow>
   hash_key order_sn = Inr k \<Longrightarrow> distinct (discharge_order_sns s) \<Longrightarrow>
   distinct (discharge_order_sns (on_event_messages ms s))"
proof (induction ms arbitrary: s)
  case Nil
  then show ?case by simp
next
  case (Cons m ms)
  have "distinct (discharge_order_sns (on_event_message m s))"
    using Cons.prems discharge_event_step(2) [of order_sn "snd m" k "fst m" s]
    by (simp add: on_event_message_def)
  with Cons show ?case by simp
qed

lemma charge_events_upsert:
  assumes "truthy order_sn" and "hash_key order_sn = Inr k" and "ms \<noteq> []"
    and all: "\<forall>m\<in>set ms. record_event ''chargeRecord'' order_sn (snd m)"
    and d: "distinct (charge_order_sns s)"
  shows "count_list (charge_order_sns (on_event_messages ms s)) k = 1
         \<and> charge_records (on_event_messages ms s) k
             = Some (make_charge_record (fst (last ms)) order_sn (body_of (snd (last ms))))"
proof -
  from \<open>ms \<noteq> []\<close> obtain ms' m where ms: "ms = ms' @ [m]"
    by (cases ms rule: rev_cases) auto
  let ?s1 = "on_event_messages ms' s"
  have d1: "distinct (charge_order_sns ?s1)"
    using all d assms(1,2) by (intro charge_events_distinct [of ms' order_sn k s]) (simp_all add: ms)
  have m: "record_event ''chargeRecord'' order_sn (snd m)"
    using all by (simp add: ms)
  note st = charge_event_step [OF m assms(1,2), of "fst m" ?s1]
  have "distinct (charge_order_sns (on_event_message m ?s1))"
    and "k \<in> set (charge_order_sns (on_event_message m ?s1))"
    using d1 by (simp_all add: on_event_message_def st(2))
  then have "count_list (charge_order_sns (on_event_message m ?s1)) k = 1"
    by (simp add: count_list_distinct)
  moreover have "charge_records (on_event_message m ?s1) k
      = Some (make_charge_record (fst m) order_sn (body_of (snd m)))"
    by (simp add: on_event_message_def st(1))
  ultimately show ?thesis
    by (simp add: ms on_event_messages_snoc)
qed

lemma discharge_events_upsert:
  assumes "truthy order_sn" and "hash_key order_sn = Inr k" and "ms \<noteq> []"
    and all: "\<forall>m\<in>set ms. record_event ''dischargeRecord'' order_sn (snd m)"
    and d: "distinct (discharge_order_sns s)"
  shows "count_list (discharge_order_sns (on_event_messages ms s)) k = 1
         \<and> discharge_records (on_event_messages ms s) k
             = Some (make_discharge_record (fst (last ms)) order_sn (body_of (snd (last ms))))"
proof -
  from \<open>ms \<noteq> []\<close> obtain ms' m where ms: "ms = ms' @ [m]"
    by (cases ms rule: rev_cases) auto
  let ?s1 = "on_event_messages ms' s"
  have d1: "distinct (discharge_order_sns ?s1)"
    using all d assms(1,2)
    by (intro discharge_events_distinct [of ms' order_sn k s]) (simp_all add: ms)
  have m: "record_event ''dischargeRecord'' order_sn (snd m)"
    using all by (simp add: ms)
  note st = discharge_event_step [OF m assms(1,2), of "fst m" ?s1]
  have "distinct (discharge_order_sns (on_event_message m ?s1))"
    and "k \<in> set (discharge_order_sns (on_event_message m ?s1))"
    using d1 by (simp_all add: on_event_message_def st(2))
  then have "count_list (discharge_order_sns (on_event_message m ?s1)) k = 1"
    by (simp add: count_list_distinct)
  moreover have "discharge_records (on_event_message m ?s1) k
      = Some (make_discharge_record (fst m) order_sn (body_of (snd m)))"
    by (simp add: on_event_message_def st(1))
  ultimately show ?thesis
    by (simp add: ms on_event_messages_snoc)
qed

text \<open>
  Claim C2. For every order identifier and every non-empty sequence of charge-record
  (respectively discharge-record) events carrying it, after the events have been processed
  the insertion-order index list contains the identifier exactly once and the record
  stored under it holds the field values of the last event processed: each field is the
  value of its key in that event's body (or the default of the source when the key is
  missing), and the creation time is the time at which that event was processed.
\<close>

theorem record_upsert_once:
  assumes "truthy order_sn" and "hash_key order_sn = Inr k" and "ms \<noteq> []"
  shows "((\<forall>m\<in>set ms. record_event ''chargeRecord'' order_sn (snd m))
            \<and> distinct (charge_order_sns s) \<longrightarrow>
          count_list (charge_order_sns (on_event_messages ms s)) k = 1
          \<and> charge_records (on_event_messages ms s) k
              = Some \<lparr> cr_order_sn = order_sn,
                       cr_start_time = get_or (body_of (snd (last ms))) ''startTime'' JNull,
                       cr_stop_time = get_or (body_of (snd (last ms))) ''stopTime'' JNull,
                       cr_electAmount = get_or (body_of (snd (last ms))) ''electAmount'' (JInt 0),
                       cr_total_money = get_or (body_of (snd (last ms))) ''totalMoney'' (JInt 0),
                       cr_start_soc = get_or (body_of (snd (last ms))) ''startSoc'' (JInt 0),
                       cr_stop_soc = get_or (body_of (snd (last ms))) ''stopSoc'' (JInt 0),
                       cr_chgTime = get_or (body_of (snd (last ms))) ''chgTime'' (JInt 0),
                       cr_rateModelID = get_or (body_of (snd (last ms))) ''rateModelID'' (JInt 0),
                       cr_created_at = stamp (fst (last ms)) \<rparr>)
       \<and> ((\<forall>m\<in>set ms. record_event ''dischargeRecord'' order_sn (snd m))
            \<and> distinct (discharge_order_sns s) \<longrightarrow>
          count_list (discharge_order_sns (on_event_messages ms s)) k = 1
          \<and> discharge_records (on_event_messages ms s) k
              = Some \<lparr> dr_order_sn = order_sn,
                       dr_start_time = get_or (body_of (snd (last ms))) ''startTime'' JNull,
                       dr_stop_time = get_or (body_of (snd (last ms))) ''stopTime'' JNull,
                       dr_electAmount = get_or (body_of (snd (last ms))) ''electAmount'' JNull,
                       dr_total_money = get_or (body_of (snd (last ms))) ''totalMoney'' (JInt 0),
                       dr_start_soc = get_or (body_of (snd (last ms))) ''startSoc'' (JInt 0),
                       dr_stop_soc = get_or (body_of (snd (last ms))) ''stopSoc'' (JInt 0),
                       dr_duration = get_or (body_of (snd (last ms))) ''chgTime'' (JInt 0),
                       dr_rateModelID = get_or (body_of (snd (last ms))) ''rateModelID'' (JInt 0),
                       dr_created_at = stamp (fst (last ms)) \<rparr>)"
  using charge_events_upsert [OF assms, of s] discharge_events_upsert [OF assms, of s]
  unfolding make_charge_record_def make_discharge_record_def
  by blast

theorem record_upsert_once_witness:
  "count_list (charge_order_sns (on_event_messages
        [(\<lparr>instant = 1, stamp = ''t1'', iso = ''i1''\<rparr>,
          JObj [(''header'', JObj [(''index'', JInt 1), (''function'', JStr ''chargeRecord'')]),
                (''dataBody'', JObj [(''orderSn'', JStr ''A''), (''startTime'', JStr ''08:00''),
                                     (''stopTime'', JStr ''09:00''), (''electAmount'', JInt 10),
                                     (''totalMoney'', JInt 5), (''startSoc'', JInt 20),
                                     (''stopSoc'', JInt 60), (''chgTime'', JInt 3600),
                                     (''rateModelID'', JInt 1)])]),
         (\<lparr>instant = 2, stamp = ''t2'', iso = ''i2''\<rparr>,
          JObj [(''header'', JObj [(''index'', JInt 2), (''function'', JStr ''chargeRecord'')]),
                (''dataBody'', JObj [(''orderSn'', JStr ''A''), (''startTime'', JStr ''08:00''),
                                     (''stopTime'', JStr ''09:30''), (''electAmount'', JInt 15),
                                     (''totalMoney'', JInt 7), (''startSoc'', JInt 20),
                                     (''stopSoc'', JInt 80), (''chgTime'', JInt 5400),
                                     (''rateModelID'', JInt 2)])])]
        (init ''P'' ''D''))) (KStr ''A'') = 1
   \<and> charge_records (on_event_messages
        [(\<lparr>instant = 1, stamp = ''t1'', iso = ''i1''\<rparr>,
          JObj [(''header'', JObj [(''index'', JInt 1), (''function'', JStr ''chargeRecord'')]),
                (''dataBody'', JObj [(''orderSn'', JStr ''A''), (''startTime'', JStr ''08:00''),
                                     (''stopTime'', JStr ''09:00''), (''electAmount'', JInt 10),
                                     (''totalMoney'', JInt 5), (''startSoc'', JInt 20),
                                     (''stopSoc'', JInt 60), (''chgTime'', JInt 3600),
                                     (''rateModelID'', JInt 1)])]),
         (\<lparr>instant = 2, stamp = ''t2'', iso = ''i2''\<rparr>,
          JObj [(''header'', JObj [(''index'', JInt 2), (''function'', JStr ''chargeRecord'')]),
                (''dataBody'', JObj [(''orderSn'', JStr ''A''), (''startTime'', JStr ''08:00''),
                                     (''stopTime'', JStr ''09:30''), (''electAmount'', JInt 15),
                                     (''totalMoney'', JInt 7), (''startSoc'', JInt 20),
                                     (''stopSoc'', JInt 80), (''chgTime'', JInt 5400),
                                     (''rateModelID'', JInt 2)])])]
        (init ''P'' ''D'')) (KStr ''A'')
      = Some \<lparr> cr_order_sn = JStr ''A'', cr_start_time = JStr ''08:00'',
               cr_stop_time = JStr ''09:30'', cr_electAmount = JInt 15,
               cr_total_money = JInt 7, cr_start_soc = JInt 20, cr_stop_soc = JInt 80,
               cr_chgTime = JInt 5400, cr_rateModelID = JInt 2, cr_created_at = ''t2'' \<rparr>
   \<and> count_list (discharge_order_sns (on_event_messages
        [(\<lparr>instant = 1, stamp = ''t1'', iso = ''i1''\<rparr>,
          JObj [(''header'', JObj [(''index'', JInt 1), (''function'', JStr ''dischargeRecord'')]),
                (''dataBody'', JObj [(''orderSn'', JStr ''A''), (''startTime'', JStr ''18:00''),
                                     (''stopTime'', JStr ''19:00''), (''electAmount'', JInt 10),
                                     (''totalMoney'', JInt 5), (''startSoc'', JInt 90),
                                     (''stopSoc'', JInt 50), (''chgTime'', JInt 3600),
                                     (''rateModelID'', JInt 1)])]),
         (\<lparr>instant = 2, stamp = ''t2'', iso = ''i2''\<rparr>,
          JObj [(''header'', JObj [(''index'', JInt 2), (''function'', JStr ''dischargeRecord'')]),
                (''dataBody'', JObj [(''orderSn'', JStr ''A''), (''startTime'', JStr ''18:00''),
                                     (''stopTime'', JStr ''19:30''),
                                     (''totalMoney'', JInt 7), (''startSoc'', JInt 90),
                                     (''stopSoc'', JInt 30), (''chgTime'', JInt 5400),
                                     (''rateModelID'', JInt 2)])])]
        (init ''P'' ''D''))) (KStr ''A'') = 1
   \<and> discharge_records (on_event_messages
        [(\<lparr>instant = 1, stamp = ''t1'', iso = ''i1''\<rparr>,
          JObj [(''header'', JObj [(''index'', JInt 1), (''function'', JStr ''dischargeRecord'')]),
                (''dataBody'', JObj [(''orderSn'', JStr ''A''), (''startTime'', JStr ''18:00''),
                                     (''stopTime'', JStr ''19:00''), (''electAmount'', JInt 10),
                                     (''totalMoney'', JInt 5), (''startSoc'', JInt 90),
                                     (''stopSoc'', JInt 50), (''chgTime'', JInt 3600),
                                     (''rateModelID'', JInt 1)])]),
         (\<lparr>instant = 2, stamp = ''t2'', iso = ''i2''\<rparr>,
          JObj [(''header'', JObj [(''index'', JInt 2), (''function'', JStr ''dischargeRecord'')]),
                (''dataBody'', JObj [(''orderSn'', JStr ''A''), (''startTime'', JStr ''18:00''),
                                     (''stopTime'', JStr ''19:30''),
                                     (''totalMoney'', JInt 7), (''startSoc'', JInt 90),
                                     (''stopSoc'', JInt 30), (''chgTime'', JInt 5400),
                                     (''rateModelID'', JInt 2)])])]
        (init ''P'' ''D'')) (KStr ''A'')
      = Some \<lparr> dr_order_sn = JStr ''A'', dr_start_time = JStr ''18:00'',
               dr_stop_time = JStr ''19:30'', dr_electAmount = JNull,
               dr_total_money = JInt 7, dr_start_soc = JInt 90, dr_stop_soc = JInt 30,
               dr_duration = JInt 5400, dr_rateModelID = JInt 2, dr_created_at = ''t2'' \<rparr>"
  using record_upsert_once
    [of "JStr ''A''" "KStr ''A''"
        "[(\<lparr>instant = 1, stamp = ''t1'', iso = ''i1''\<rparr>,
          JObj [(''header'', JObj [(''index'', JInt 1), (''function'', JStr ''chargeRecord'')]),
                (''dataBody'', JObj [(''orderSn'', JStr ''A''), (''startTime'', JStr ''08:00''),
                                     (''stopTime'', JStr ''09:00''), (''electAmount'', JInt 10),
                                     (''totalMoney'', JInt 5), (''startSoc'', JInt 20),
                                     (''stopSoc'', JInt 60), (''chgTime'', JInt 3600),
                                     (''rateModelID'', JInt 1)])]),
         (\<lparr>instant = 2, stamp = ''t2'', iso = ''i2''\<rparr>,
          JObj [(''header'', JObj [(''index'', JInt 2), (''function'', JStr ''chargeRecord'')]),
                (''dataBody'', JObj [(''orderSn'', JStr ''A''), (''startTime'', JStr ''08:00''),
                                     (''stopTime'', JStr ''09:30''), (''electAmount'', JInt 15),
                                     (''totalMoney'', JInt 7), (''startSoc'', JInt 20),
                                     (''stopSoc'', JInt 80), (''chgTime'', JInt 5400),
                                     (''rateModelID'', JInt 2)])])]"
        "init ''P'' ''D''"]
    record_upsert_once
    [of "JStr ''A''" "KStr ''A''"
        "[(\<lparr>instant = 1, stamp = ''t1'', iso = ''i1''\<rparr>,
          JObj [(''header'', JObj [(''index'', JInt 1), (''function'', JStr ''dischargeRecord'')]),
                (''dataBody'', JObj [(''orderSn'', JStr ''A''), (''startTime'', JStr ''18:00''),
                                     (''stopTime'', JStr ''19:00''), (''electAmount'', JInt 10),
                                     (''totalMoney'', JInt 5), (''startSoc'', JInt 90),
                                     (''stopSoc'', JInt 50), (''chgTime'', JInt 3600),
                                     (''rateModelID'', JInt 1)])]),
         (\<lparr>instant = 2, stamp = ''t2'', iso = ''i2''\<rparr>,
          JObj [(''header'', JObj [(''index'', JInt 2), (''function'', JStr ''dischargeRecord'')]),
                (''dataBody'', JObj [(''orderSn'', JStr ''A''), (''startTime'', JStr ''18:00''),
                                     (''stopTime'', JStr ''19:30''),
                                     (''totalMoney'', JInt 7), (''startSoc'', JInt 90),
                                     (''stopSoc'', JInt 30), (''chgTime'', JInt 5400),
                                     (''rateModelID'', JInt 2)])])]"
        "init ''P'' ''D''"]
  by (simp add: record_event_def body_of_def get_or_def init_def)

section \<open>Confirmations\<close>

lemma process_charge_record_published [simp]:
  "published (snd (process_charge_record now p s)) = published s"
  "get_topic (snd (process_charge_record now p s)) mt d = get_topic s mt d"
  by (simp_all add: process_charge_record_def get_topic_def Let_def
        split: sum.split json.split option.split)

lemma process_discharge_record_published [simp]:
  "published (snd (process_discharge_record now p s)) = published s"
  "get_topic (snd (process_discharge_record now p s)) mt d = get_topic s mt d"
  by (simp_all add: process_discharge_record_def get_topic_def Let_def
        split: sum.split json.split option.split)

lemma process_record_published [simp]:
  "published (snd (process_record now func p s)) = published s"
  "get_topic (snd (process_record now func p s)) mt d = get_topic s mt d"
  by (simp_all add: process_record_def)

lemma get_topic_log_event [simp]: "get_topic (log_event e s) mt d = get_topic s mt d"
  by (simp add: log_event_def get_topic_def)

lemma published_send_confirm:
  "published (send_confirm now idx order_sn func s) =
     (if idx = JNull then published s
      else published s @ [(get_topic s CONFIRM Publish, confirm_payload now idx order_sn func)])"
  by (simp add: send_confirm_def publish_def)

lemma process_charge_record_outcome:
  assumes "get_or kvs ''dataBody'' (JObj []) = JObj body"
  shows "fst (process_charge_record now (JObj kvs) s) = None \<longleftrightarrow>
           (truthy (get_or body ''orderSn'' JNull) \<longrightarrow>
              (\<exists>k. hash_key (get_or body ''orderSn'' JNull) = Inr k)
              \<and> (\<exists>c. num_of (get_or body ''totalMoney'' (JInt 0)) = Some c))"
  using assms
  by (auto simp: process_charge_record_def dict_get_def Let_def make_charge_record_def
        split: sum.splits option.splits)

lemma process_discharge_record_outcome:
  assumes "get_or kvs ''dataBody'' (JObj []) = JObj body"
  shows "fst (process_discharge_record now (JObj kvs) s) = None \<longleftrightarrow>
           (truthy (get_or body ''orderSn'' JNull) \<longrightarrow>
              (\<exists>k. hash_key (get_or body ''orderSn'' JNull) = Inr k)
              \<and> (\<exists>c. num_of (get_or body ''totalMoney'' (JInt 0)) = Some c))"
  using assms
  by (auto simp: process_discharge_record_def dict_get_def Let_def make_discharge_record_def
        split: sum.splits option.splits)

lemma process_record_body_not_dict:
  assumes "\<forall>body. get_or kvs ''dataBody'' (JObj []) \<noteq> JObj body"
    and "func = JStr ''chargeRecord'' \<or> func = JStr ''dischargeRecord''"
  shows "fst (process_record now func (JObj kvs) s) \<noteq> None"
  using assms
  by (auto simp: process_record_def process_charge_record_def process_discharge_record_def
        dict_get_def split: json.splits)

lemma process_record_outcome:
  assumes "get_or kvs ''dataBody'' (JObj []) = JObj body"
  shows "fst (process_record now func (JObj kvs) s) = None \<longleftrightarrow>
           ((func = JStr ''chargeRecord'' \<or> func = JStr ''dischargeRecord'')
              \<and> truthy (get_or body ''orderSn'' JNull) \<longrightarrow>
            (\<exists>k. hash_key (get_or body ''orderSn'' JNull) = Inr k)
            \<and> (\<exists>c. num_of (get_or body ''totalMoney'' (JInt 0)) = Some c))"
  unfolding process_record_def
  using process_charge_record_outcome [OF assms, of now s]
    process_discharge_record_outcome [OF assms, of now s]
  by auto

lemma event_accepted_object:
  assumes "get_or kvs ''header'' (JObj []) = JObj header"
    and "get_or kvs ''dataBody'' (JObj []) = JObj body"
  shows "event_accepted (JObj kvs) \<longleftrightarrow>
           ((get_or header ''function'' JNull = JStr ''chargeRecord''
               \<or> get_or header ''function'' JNull = JStr ''dischargeRecord'')
              \<and> truthy (get_or body ''orderSn'' JNull) \<longrightarrow>
            (\<exists>k. hash_key (get_or body ''orderSn'' JNull) = Inr k)
            \<and> (\<exists>c. num_of (get_or body ''totalMoney'' (JInt 0)) = Some c))"
  by (auto simp: event_accepted_def assms Let_def split: sum.splits option.splits)

lemma handle_event_message_published:
  "fst (handle_event_message now p s) = None \<longleftrightarrow> event_accepted p"
  "published (snd (handle_event_message now p s)) =
     (if event_accepted p
      then published (send_confirm now (get_or (header_of p) ''index'' JNull)
                        (get_or (body_of p) ''orderSn'' JNull)
                        (get_or (header_of p) ''function'' JNull) s)
      else published s)"
proof -
  have "(fst (handle_event_message now p s) = None \<longleftrightarrow> event_accepted p)
        \<and> published (snd (handle_event_message now p s)) =
           (if event_accepted p
            then published (send_confirm now (get_or (header_of p) ''index'' JNull)
                              (get_or (body_of p) ''orderSn'' JNull)
                              (get_or (header_of p) ''function'' JNull) s)
            else published s)"
  proof (cases "logged_event (now, p)")
    case None
    then have "\<not> event_accepted p"
      by (auto simp: logged_event_def event_accepted_def split: json.splits)
    with None show ?thesis
      by (simp add: handle_event_message_not_logged)
  next
    case (Some e)
    then obtain kvs header where p: "p = JObj kvs"
      and h: "get_or kvs ''header'' (JObj []) = JObj header"
      by (auto simp: logged_event_def split: json.splits)
    have ho: "header_of p = header"
      by (simp add: header_of_def p h)
    let ?func = "get_or header ''function'' JNull"
    let ?s2 = "log_event (make_event now header (get_or kvs ''dataBody'' (JObj []))) s"
    show ?thesis
    proof (cases "\<exists>body. get_or kvs ''dataBody'' (JObj []) = JObj body")
      case True
      then obtain body where b: "get_or kvs ''dataBody'' (JObj []) = JObj body" ..
      have bo: "body_of p = body"
        by (simp add: body_of_def p b)
      have acc: "event_accepted p \<longleftrightarrow> fst (process_record now ?func (JObj kvs) ?s2) = None"
        unfolding p event_accepted_object [OF h b] process_record_outcome [OF b] ..
      show ?thesis
        unfolding acc ho bo
        unfolding p handle_event_message_object [OF h]
        by (simp add: Let_def b dict_get_def published_send_confirm split: option.split)
    next
      case False
      then have na: "\<not> event_accepted p"
        by (auto simp: event_accepted_def p h split: json.splits)
      have dg: "dict_get (get_or kvs ''dataBody'' (JObj [])) ''orderSn'' JNull = Inl AttributeError"
        using False by (auto simp: dict_get_def split: json.splits)
      show ?thesis
        unfolding p handle_event_message_object [OF h]
        using na [unfolded p]
        by (simp add: Let_def dg split: option.split)
    qed
  qed
  then show "fst (handle_event_message now p s) = None \<longleftrightarrow> event_accepted p"
    and "published (snd (handle_event_message now p s)) =
     (if event_accepted p
      then published (send_confirm now (get_or (header_of p) ''index'' JNull)
                        (get_or (body_of p) ''orderSn'' JNull)
                        (get_or (header_of p) ''function'' JNull) s)
      else published s)"
    by simp_all
qed

text \<open>
  Claim C1, as the code has it. An event message that the handler processes to its end
  (\<open>event_accepted\<close>) and whose header index is present makes the handler publish exactly
  one confirmation on the confirm topic, with that index, the \<^verbatim>\<open>orderSn\<close> of the event body
  and the confirmation function of the table, which is the empty string for a function
  without entry; with an absent index nothing is published. On every other event message
  the handler raises before the confirmation step and nothing is published.
\<close>

theorem confirmation_published:
  fixes now :: clock and p :: json and s :: session
  defines "idx \<equiv> get_or (header_of p) ''index'' JNull"
    and "order_sn \<equiv> get_or (body_of p) ''orderSn'' JNull"
    and "func \<equiv> get_or (header_of p) ''function'' JNull"
    and "s' \<equiv> snd (handle_event_message now p s)"
  shows "(event_accepted p \<and> idx \<noteq> JNull \<longrightarrow>
            published s' = published s @
              [(get_topic s CONFIRM Publish,
                JObj [(''header'', JObj [(''index'', idx),
                                         (''version'', JStr ''1.0''),
                                         (''timestamp'', JStr (stamp now)),
                                         (''messageType'', JStr ''confirm''),
                                         (''function'', JStr (func_conf func))]),
                      (''dataBody'', JObj [(''orderSn'', order_sn),
                                           (''result'', JInt 1),
                                           (''reason'', JInt 1)])])])
         \<and> (idx = JNull \<longrightarrow> published s' = published s)
         \<and> (event_accepted p \<longrightarrow> fst (handle_event_message now p s) = None)
         \<and> (\<not> event_accepted p \<longrightarrow>
               fst (handle_event_message now p s) \<noteq> None \<and> published s' = published s)
         \<and> (func \<notin> {JStr ''chargeEvent'', JStr ''dischargeEvent'', JStr ''faultRecord'',
                       JStr ''chargeRecord'', JStr ''dischargeRecord''} \<longrightarrow>
               func_conf func = [])"
  unfolding s'_def idx_def order_sn_def func_def
  by (simp add: handle_event_message_published published_send_confirm confirm_payload_def
        func_conf_def)

theorem confirmation_published_witness:
  "published (snd (handle_event_message \<lparr>instant = 1, stamp = ''t1'', iso = ''i1''\<rparr>
      (JObj [(''header'', JObj [(''index'', JInt 7), (''function'', JStr ''otherEvent'')]),
             (''dataBody'', JObj [(''orderSn'', JStr ''A'')])])
      (init ''P'' ''D'')))
     = [(''P/D/M2S/confirm'',
         JObj [(''header'', JObj [(''index'', JInt 7),
                                  (''version'', JStr ''1.0''),
                                  (''timestamp'', JStr ''t1''),
                                  (''messageType'', JStr ''confirm''),
                                  (''function'', JStr [])]),
               (''dataBody'', JObj [(''orderSn'', JStr ''A''),
                                    (''result'', JInt 1),
                                    (''reason'', JInt 1)])])]
   \<and> published (snd (handle_event_message \<lparr>instant = 1, stamp = ''t1'', iso = ''i1''\<rparr>
      (JObj [(''header'', JObj [(''function'', JStr ''chargeEvent'')]),
             (''dataBody'', JObj [(''orderSn'', JStr ''A'')])])
      (init ''P'' ''D''))) = []
   \<and> published (snd (handle_event_message \<lparr>instant = 1, stamp = ''t1'', iso = ''i1''\<rparr>
      (JObj [(''header'', JObj [(''index'', JInt 7)]), (''dataBody'', JArr [])])
      (init ''P'' ''D''))) = []"
  using confirmation_published
      [of "JObj [(''header'', JObj [(''index'', JInt 7), (''function'', JStr ''otherEvent'')]),
                 (''dataBody'', JObj [(''orderSn'', JStr ''A'')])]"
          "\<lparr>instant = 1, stamp = ''t1'', iso = ''i1''\<rparr>" "init ''P'' ''D''"]
    confirmation_published
      [of "JObj [(''header'', JObj [(''function'', JStr ''chargeEvent'')]),
                 (''dataBody'', JObj [(''orderSn'', JStr ''A'')])]"
          "\<lparr>instant = 1, stamp = ''t1'', iso = ''i1''\<rparr>" "init ''P'' ''D''"]
    confirmation_published
      [of "JObj [(''header'', JObj [(''index'', JInt 7)]), (''dataBody'', JArr [])]"
          "\<lparr>instant = 1, stamp = ''t1'', iso = ''i1''\<rparr>" "init ''P'' ''D''"]
  by (simp add: event_accepted_def header_of_def body_of_def get_or_def func_conf_def
        get_topic_def init_def)

text \<open>
  The claim as written fails on a charge record whose cost is not a number: the index is
  present, the record is stored, the addition to the total raises and no confirmation is
  published.
\<close>

theorem confirmation_published_counterexample:
  "get_or (header_of
      (JObj [(''header'', JObj [(''index'', JInt 7), (''function'', JStr ''chargeRecord'')]),
             (''dataBody'', JObj [(''orderSn'', JStr ''A''), (''totalMoney'', JStr ''12.5'')])]))
      ''index'' JNull = JInt 7
   \<and> fst (handle_event_message \<lparr>instant = 1, stamp = ''t1'', iso = ''i1''\<rparr>
      (JObj [(''header'', JObj [(''index'', JInt 7), (''function'', JStr ''chargeRecord'')]),
             (''dataBody'', JObj [(''orderSn'', JStr ''A''), (''totalMoney'', JStr ''12.5'')])])
      (init ''P'' ''D'')) = Some TypeError
   \<and> published (snd (handle_event_message \<lparr>instant = 1, stamp = ''t1'', iso = ''i1''\<rparr>
      (JObj [(''header'', JObj [(''index'', JInt 7), (''function'', JStr ''chargeRecord'')]),
             (''dataBody'', JObj [(''orderSn'', JStr ''A''), (''totalMoney'', JStr ''12.5'')])])
      (init ''P'' ''D''))) = []"
  by (simp add: handle_event_message_def process_charge_record_def dict_get_def get_or_def
        header_of_def Let_def init_def make_charge_record_def make_event_def)

section \<open>Responses\<close>





section \<open>Record queries\<close>

lemma slice_from_last:
  assumes "0 < n"
  shows "rev (slice_from xs (- n)) = take (nat n) (rev xs)"
proof -
  have "slice_from xs (- n) = drop (length xs - nat n) xs"
    using assms by (simp add: slice_from_def Let_def nat_diff_distrib' max_def)
  moreover have "take (length xs - (length xs - nat n)) (rev xs) = take (nat n) (rev xs)"
    by (cases "nat n \<le> length xs") simp_all
  ultimately show ?thesis
    by (simp add: rev_drop)
qed

lemma slice_from_zero: "slice_from xs 0 = xs"
  by (simp add: slice_from_def)

lemma length_records_of: "length (records_of m ks) \<le> length ks"
  by (simp add: records_of_def map_filter_def)

text \<open>
  For a positive count and no filter the queries do what the claim says: the records of
  the \<open>n\<close> most recently inserted identifiers, most recent first, at most \<open>n\<close> of them.
\<close>

lemma get_charge_records_recent:
  assumes "0 < n" and "\<not> truthy order_sn"
  shows "get_charge_records n order_sn s
           = Inr (records_of (charge_records s) (take (nat n) (rev (charge_order_sns s))))"
    and "\<exists>rs. get_charge_records n order_sn s = Inr rs \<and> int (length rs) \<le> n"
proof -
  show eq: "get_charge_records n order_sn s
           = Inr (records_of (charge_records s) (take (nat n) (rev (charge_order_sns s))))"
    using assms by (simp add: get_charge_records_def slice_from_last)
  have "length (records_of (charge_records s) (take (nat n) (rev (charge_order_sns s)))) \<le> nat n"
    by (rule order_trans [OF length_records_of]) simp
  with assms(1) eq show "\<exists>rs. get_charge_records n order_sn s = Inr rs \<and> int (length rs) \<le> n"
    by auto
qed

lemma get_discharge_records_recent:
  assumes "0 < n" and "\<not> truthy order_sn"
  shows "get_discharge_records n order_sn s
           = Inr (records_of (discharge_records s) (take (nat n) (rev (discharge_order_sns s))))"
    and "\<exists>rs. get_discharge_records n order_sn s = Inr rs \<and> int (length rs) \<le> n"
proof -
  show eq: "get_discharge_records n order_sn s
           = Inr (records_of (discharge_records s) (take (nat n) (rev (discharge_order_sns s))))"
    using assms by (simp add: get_discharge_records_def slice_from_last)
  have "length (records_of (discharge_records s) (take (nat n) (rev (discharge_order_sns s))))
          \<le> nat n"
    by (rule order_trans [OF length_records_of]) simp
  with assms(1) eq show "\<exists>rs. get_discharge_records n order_sn s = Inr rs \<and> int (length rs) \<le> n"
    by auto
qed

text \<open>With a filter that is a non-empty string: the one record stored under it, or none.\<close>

lemma get_charge_records_filter:
  assumes "order_sn \<noteq> []"
  shows "get_charge_records n (JStr order_sn) s
           = Inr (case charge_records s (KStr order_sn) of Some r \<Rightarrow> [r] | None \<Rightarrow> [])"
  using assms by (simp add: get_charge_records_def)

lemma get_discharge_records_filter:
  assumes "order_sn \<noteq> []"
  shows "get_discharge_records n (JStr order_sn) s
           = Inr (case discharge_records s (KStr order_sn) of Some r \<Rightarrow> [r] | None \<Rightarrow> [])"
  using assms by (simp add: get_discharge_records_def)

text \<open>
  Claim C9. The queries are to return at most \<open>n\<close> records for every count \<open>n\<close>. With
  the count 0 the slice \<^verbatim>\<open>[-count:]\<close> is \<^verbatim>\<open>[0:]\<close>, the whole list: after two charge
  records and two discharge records, the queries with count 0 return both records.
\<close>

theorem get_records_count_zero:
  "get_charge_records 0 JNull
     (on_event_messages
        [(\<lparr>instant = 1, stamp = ''t1'', iso = ''i1''\<rparr>,
          JObj [(''header'', JObj [(''index'', JInt 1), (''function'', JStr ''chargeRecord'')]),
                (''dataBody'', JObj [(''orderSn'', JStr ''A''), (''totalMoney'', JInt 5)])]),
         (\<lparr>instant = 2, stamp = ''t2'', iso = ''i2''\<rparr>,
          JObj [(''header'', JObj [(''index'', JInt 2), (''function'', JStr ''chargeRecord'')]),
                (''dataBody'', JObj [(''orderSn'', JStr ''B''), (''totalMoney'', JInt 7)])])]
        (init ''P'' ''D''))
     = Inr [make_charge_record \<lparr>instant = 2, stamp = ''t2'', iso = ''i2''\<rparr> (JStr ''B'')
              [(''orderSn'', JStr ''B''), (''totalMoney'', JInt 7)],
            make_charge_record \<lparr>instant = 1, stamp = ''t1'', iso = ''i1''\<rparr> (JStr ''A'')
              [(''orderSn'', JStr ''A''), (''totalMoney'', JInt 5)]]
   \<and> get_discharge_records 0 JNull
     (on_event_messages
        [(\<lparr>instant = 1, stamp = ''t1'', iso = ''i1''\<rparr>,
          JObj [(''header'', JObj [(''index'', JInt 1), (''function'', JStr ''dischargeRecord'')]),
                (''dataBody'', JObj [(''orderSn'', JStr ''A''), (''totalMoney'', JInt 5)])]),
         (\<lparr>instant = 2, stamp = ''t2'', iso = ''i2''\<rparr>,
          JObj [(''header'', JObj [(''index'', JInt 2), (''function'', JStr ''dischargeRecord'')]),
                (''dataBody'', JObj [(''orderSn'', JStr ''B''), (''totalMoney'', JInt 7)])])]
        (init ''P'' ''D''))
     = Inr [make_discharge_record \<lparr>instant = 2, stamp = ''t2'', iso = ''i2''\<rparr> (JStr ''B'')
              [(''orderSn'', JStr ''B''), (''totalMoney'', JInt 7)],
            make_discharge_record \<lparr>instant = 1, stamp = ''t1'', iso = ''i1''\<rparr> (JStr ''A'')
              [(''orderSn'', JStr ''A''), (''totalMoney'', JInt 5)]]"
proof -
  let ?c1 = "\<lparr>instant = 1, stamp = ''t1'', iso = ''i1''\<rparr>"
  let ?c2 = "\<lparr>instant = 2, stamp = ''t2'', iso = ''i2''\<rparr>"
  let ?bA = "[(''orderSn'', JStr ''A''), (''totalMoney'', JInt 5)]"
  let ?bB = "[(''orderSn'', JStr ''B''), (''totalMoney'', JInt 7)]"
  let ?cA = "JObj [(''header'', JObj [(''index'', JInt 1), (''function'', JStr ''chargeRecord'')]),
                   (''dataBody'', JObj ?bA)]"
  let ?cB = "JObj [(''header'', JObj [(''index'', JInt 2), (''function'', JStr ''chargeRecord'')]),
                   (''dataBody'', JObj ?bB)]"
  let ?dA = "JObj [(''header'', JObj [(''index'', JInt 1), (''function'', JStr ''dischargeRecord'')]),
                   (''dataBody'', JObj ?bA)]"
  let ?dB = "JObj [(''header'', JObj [(''index'', JInt 2), (''function'', JStr ''dischargeRecord'')]),
                   (''dataBody'', JObj ?bB)]"
  let ?s0 = "init ''P'' ''D''"
  have cA: "record_event ''chargeRecord'' (JStr ''A'') ?cA" "body_of ?cA = ?bA"
    and cB: "record_event ''chargeRecord'' (JStr ''B'') ?cB" "body_of ?cB = ?bB"
    and dA: "record_event ''dischargeRecord'' (JStr ''A'') ?dA" "body_of ?dA = ?bA"
    and dB: "record_event ''dischargeRecord'' (JStr ''B'') ?dB" "body_of ?dB = ?bB"
    by (simp_all add: record_event_def body_of_def get_or_def)
  have s0: "charge_order_sns ?s0 = []" "discharge_order_sns ?s0 = []"
    by (simp_all add: init_def)
  let ?sc = "on_event_message (?c2, ?cB) (on_event_message (?c1, ?cA) ?s0)"
  let ?sd = "on_event_message (?c2, ?dB) (on_event_message (?c1, ?dA) ?s0)"
  have c_sns: "charge_order_sns ?sc = [KStr ''A'', KStr ''B'']"
    by (simp add: on_event_message_def s0
          charge_event_step(2) [OF cA(1), of "KStr ''A''"]
          charge_event_step(2) [OF cB(1), of "KStr ''B''"])
  have c_recs: "charge_records ?sc (KStr ''A'') = Some (make_charge_record ?c1 (JStr ''A'') ?bA)"
    "charge_records ?sc (KStr ''B'') = Some (make_charge_record ?c2 (JStr ''B'') ?bB)"
    by (simp_all add: on_event_message_def cA(2) cB(2)
          charge_event_step(1) [OF cA(1), of "KStr ''A''"]
          charge_event_step(1) [OF cB(1), of "KStr ''B''"])
  have d_sns: "discharge_order_sns ?sd = [KStr ''A'', KStr ''B'']"
    by (simp add: on_event_message_def s0
          discharge_event_step(2) [OF dA(1), of "KStr ''A''"]
          discharge_event_step(2) [OF dB(1), of "KStr ''B''"])
  have d_recs:
    "discharge_records ?sd (KStr ''A'') = Some (make_discharge_record ?c1 (JStr ''A'') ?bA)"
    "discharge_records ?sd (KStr ''B'') = Some (make_discharge_record ?c2 (JStr ''B'') ?bB)"
    by (simp_all add: on_event_message_def dA(2) dB(2)
          discharge_event_step(1) [OF dA(1), of "KStr ''A''"]
          discharge_event_step(1) [OF dB(1), of "KStr ''B''"])
  have "get_charge_records 0 JNull ?sc
          = Inr [make_charge_record ?c2 (JStr ''B'') ?bB, make_charge_record ?c1 (JStr ''A'') ?bA]"
    by (simp add: get_charge_records_def slice_from_zero records_of_def map_filter_def
          c_sns c_recs)
  moreover have "get_discharge_records 0 JNull ?sd
          = Inr [make_discharge_record ?c2 (JStr ''B'') ?bB,
                 make_discharge_record ?c1 (JStr ''A'') ?bA]"
    by (simp add: get_discharge_records_def slice_from_zero records_of_def map_filter_def
          d_sns d_recs)
  ultimately show ?thesis
    by (simp only: on_event_messages.simps)
qed

section \<open>Rate-model requests and the pending-commands table\<close>

lemma process_charge_record_pending [simp]:
  "pending_commands (snd (process_charge_record now p s)) = pending_commands s"
  "message_index (snd (process_charge_record now p s)) = message_index s"
  by (simp_all add: process_charge_record_def Let_def split: sum.split json.split option.split)

lemma process_discharge_record_pending [simp]:
  "pending_commands (snd (process_discharge_record now p s)) = pending_commands s"
  "message_index (snd (process_discharge_record now p s)) = message_index s"
  by (simp_all add: process_discharge_record_def Let_def
        split: sum.split json.split option.split)

lemma process_record_pending [simp]:
  "pending_commands (snd (process_record now func p s)) = pending_commands s"
  "message_index (snd (process_record now func p s)) = message_index s"
  by (simp_all add: process_record_def)

lemma handle_event_message_pending:
  "pending_commands (snd (handle_event_message now p s)) = pending_commands s
   \<and> message_index (snd (handle_event_message now p s)) = message_index s"
proof (cases "logged_event (now, p)")
  case None
  then show ?thesis by (simp add: handle_event_message_not_logged)
next
  case (Some e)
  then obtain kvs header where p: "p = JObj kvs"
    and h: "get_or kvs ''header'' (JObj []) = JObj header"
    by (auto simp: logged_event_def split: json.splits)
  show ?thesis
    unfolding p handle_event_message_object [OF h]
    by (simp add: Let_def split: option.split sum.split)
qed

lemma handle_response_message_pending:
  "message_index (snd (handle_response_message p s)) = message_index s"
  "pending_commands s r = None \<Longrightarrow> pending_commands (snd (handle_response_message p s)) r = None"
  by (auto simp: handle_response_message_def find_pending_def Let_def
        split: sum.split json.split option.split key.split)

lemma send_command_pending:
  assumes "pending_commands s r = None" and "r \<le> message_index s"
  shows "pending_commands (snd (send_command now command_type params s)) r = None"
    and "r \<le> message_index (snd (send_command now command_type params s))"
  using assms by (simp_all add: send_command_def publish_def Let_def)

lemma send_rate_model_set_pending:
  "pending_commands (snd (send_rate_model_set now rid eff ed rl rdl fid s)) = pending_commands s"
  "message_index s \<le> message_index (snd (send_rate_model_set now rid eff ed rl rdl fid s))"
  by (simp_all add: send_rate_model_set_def publish_def Let_def)

lemma step_no_entry:
  assumes "pending_commands s r = None" and "r \<le> message_index s"
  shows "pending_commands (step a s) r = None \<and> r \<le> message_index (step a s)"
proof (cases a)
  case (Event now p)
  then show ?thesis
    using assms by (simp add: on_event_message_def handle_event_message_pending)
next
  case (Response p)
  then show ?thesis
    using assms by (simp add: on_response_message_def handle_response_message_pending)
next
  case (Command now command_type params)
  then show ?thesis
    using assms by (simp add: send_command_pending)
next
  case (Rate_model now rid eff ed rl rdl fid)
  then show ?thesis
    using assms send_rate_model_set_pending(2) [of s now rid eff ed rl rdl fid]
    by (simp add: send_rate_model_set_pending(1))
next
  case (Connection b)
  then show ?thesis using assms by simp
qed

lemma steps_no_entry:
  "pending_commands s r = None \<Longrightarrow> r \<le> message_index s \<Longrightarrow>
   pending_commands (steps as s) r = None"
proof (induction as arbitrary: s)
  case Nil
  then show ?case by simp
next
  case (Cons a as)
  from step_no_entry [OF Cons.prems, of a] Cons.IH [of "step a s"]
  show ?case by simp
qed

text \<open>The bound on the keys holds in a new session and after every action.\<close>

lemma pending_bounded_init: "pending_bounded (init pc dc)"
  by (simp add: pending_bounded_def init_def)

lemma pending_bounded_step:
  assumes "pending_bounded s"
  shows "pending_bounded (step a s)"
  unfolding pending_bounded_def
proof (intro allI impI)
  fix k
  assume k: "pending_commands (step a s) k \<noteq> None"
  show "k \<le> message_index (step a s)"
  proof (rule ccontr)
    assume "\<not> k \<le> message_index (step a s)"
    then have gt: "message_index (step a s) < k" by simp
    have mono: "message_index s \<le> message_index (step a s)"
      using send_rate_model_set_pending(2)
      by (cases a)
         (simp_all add: on_event_message_def handle_event_message_pending
            on_response_message_def handle_response_message_pending send_command_def
            publish_def Let_def)
    have none: "pending_commands s k = None"
      using assms gt mono by (auto simp: pending_bounded_def)
    show False
    proof (cases a)
      case (Event now p)
      then show ?thesis
        using k none by (simp add: on_event_message_def handle_event_message_pending)
    next
      case (Response p)
      then show ?thesis
        using k none by (simp add: on_response_message_def handle_response_message_pending)
    next
      case (Command now command_type params)
      then show ?thesis
        using k none gt by (auto simp: send_command_def publish_def Let_def split: if_splits)
    next
      case (Rate_model now rid eff ed rl rdl fid)
      then show ?thesis
        using k none by (simp add: send_rate_model_set_pending(1))
    next
      case (Connection b)
      then show ?thesis using k none by simp
    qed
  qed
qed

text \<open>
  Claim C10. A rate-model request that passes validation is published with the header
  index equal to the message index before the call's increment, the call returns that
  index plus one, and the pending-commands table is left as it was; no entry exists under
  the returned identifier, and none appears under it whatever happens afterwards, so no
  inbound response can mark this command completed.
\<close>

theorem rate_model_set_uncorrelated:
  fixes now :: clock and rid :: string and eff :: int and ed :: string
    and rate_list :: "json list" and rate_details_list :: "json list" and fid :: string
    and s :: session
  defines "r \<equiv> send_rate_model_set now rid eff ed rate_list rate_details_list fid s"
  assumes "connected s" and "length rate_list = length rate_details_list"
    and "1 \<le> length rate_list" and "length rate_list \<le> 12"
    and "pending_bounded s"
  shows "published (snd r) = published s @
           [(get_topic s REQUEST Publish,
             JObj [(''header'', JObj [(''version'', JStr ''V1.0.0''),
                                      (''timeStamp'', JStr (stamp now)),
                                      (''index'', JInt (message_index s)),
                                      (''function'', JStr fid),
                                      (''reason'', JInt 0)]),
                   (''dataBody'', JObj [(''rateModelID'', JStr rid),
                                        (''effect'', JInt eff),
                                        (''effectDate'', JStr ed),
                                        (''rateList'', JArr rate_list),
                                        (''rateDetailsList'', JArr rate_details_list)])])]
         \<and> fst r = message_index s + 1
         \<and> pending_commands (snd r) = pending_commands s
         \<and> (\<forall>as. pending_commands (steps as (snd r)) (fst r) = None)"
proof -
  have pub: "published (snd r) = published s @
           [(get_topic s REQUEST Publish,
             rate_model_payload now (message_index s) rid eff ed rate_list rate_details_list fid)]"
    and ret: "fst r = message_index s + 1"
    and idx: "message_index (snd r) = message_index s + 1"
    using assms(2-5)
    by (simp_all add: r_def send_rate_model_set_def publish_def get_topic_def Let_def)
  have pend: "pending_commands (snd r) = pending_commands s"
    by (simp add: r_def send_rate_model_set_pending(1))
  have none: "pending_commands (snd r) (fst r) = None"
    using assms(6) by (auto simp: pend ret pending_bounded_def)
  have "pending_commands (steps as (snd r)) (fst r) = None" for as
    using none by (rule steps_no_entry) (simp add: ret idx)
  with pub ret pend show ?thesis
    by (simp add: rate_model_payload_def)
qed

theorem rate_model_set_uncorrelated_witness:
  "published (snd (send_rate_model_set \<lparr>instant = 1, stamp = ''t1'', iso = ''i1''\<rparr> ''m'' 1 ''d''
       [JInt 1] [JInt 2] ''rateModeSetReq'' ((init ''P'' ''D'')\<lparr>connected := True\<rparr>)))
     = [(''P/D/M2S/request'',
         JObj [(''header'', JObj [(''version'', JStr ''V1.0.0''),
                                  (''timeStamp'', JStr ''t1''),
                                  (''index'', JInt 1),
                                  (''function'', JStr ''rateModeSetReq''),
                                  (''reason'', JInt 0)]),
               (''dataBody'', JObj [(''rateModelID'', JStr ''m''),
                                    (''effect'', JInt 1),
                                    (''effectDate'', JStr ''d''),
                                    (''rateList'', JArr [JInt 1]),
                                    (''rateDetailsList'', JArr [JInt 2])])])]
   \<and> fst (send_rate_model_set \<lparr>instant = 1, stamp = ''t1'', iso = ''i1''\<rparr> ''m'' 1 ''d''
       [JInt 1] [JInt 2] ''rateModeSetReq'' ((init ''P'' ''D'')\<lparr>connected := True\<rparr>)) = 2
   \<and> pending_commands
        (steps [Response (JObj [(''header'', JObj [(''index'', JInt 2)])]),
                Response (JObj [(''header'', JObj [(''index'', JInt 1)])])]
           (snd (send_rate_model_set \<lparr>instant = 1, stamp = ''t1'', iso = ''i1''\<rparr> ''m'' 1 ''d''
              [JInt 1] [JInt 2] ''rateModeSetReq'' ((init ''P'' ''D'')\<lparr>connected := True\<rparr>))))
        2 = None"
proof -
  let ?s = "(init ''P'' ''D'')\<lparr>connected := True\<rparr>"
  have h: "connected ?s" "length [JInt 1] = length [JInt 2]" "1 \<le> length [JInt 1]"
    "length [JInt 1] \<le> 12" "pending_bounded ?s"
    by (simp_all add: init_def pending_bounded_def)
  note t = rate_model_set_uncorrelated
    [of "(init ''P'' ''D'')\<lparr>connected := True\<rparr>" "[JInt 1]" "[JInt 2]"
       "\<lparr>instant = 1, stamp = ''t1'', iso = ''i1''\<rparr>" "''m''" 1 "''d''" "''rateModeSetReq''",
     OF h]
  from t have "pending_commands
        (steps [Response (JObj [(''header'', JObj [(''index'', JInt 2)])]),
                Response (JObj [(''header'', JObj [(''index'', JInt 1)])])]
           (snd (send_rate_model_set \<lparr>instant = 1, stamp = ''t1'', iso = ''i1''\<rparr> ''m'' 1 ''d''
              [JInt 1] [JInt 2] ''rateModeSetReq'' ?s)))
        (fst (send_rate_model_set \<lparr>instant = 1, stamp = ''t1'', iso = ''i1''\<rparr> ''m'' 1 ''d''
              [JInt 1] [JInt 2] ''rateModeSetReq'' ?s)) = None"
    by blast
  moreover from t have "fst (send_rate_model_set \<lparr>instant = 1, stamp = ''t1'', iso = ''i1''\<rparr>
      ''m'' 1 ''d'' [JInt 1] [JInt 2] ''rateModeSetReq'' ?s) = 2"
    by (simp add: init_def)
  moreover from t have "published (snd (send_rate_model_set
      \<lparr>instant = 1, stamp = ''t1'', iso = ''i1''\<rparr> ''m'' 1 ''d''
       [JInt 1] [JInt 2] ''rateModeSetReq'' ?s))
     = [(''P/D/M2S/request'',
         JObj [(''header'', JObj [(''version'', JStr ''V1.0.0''),
                                  (''timeStamp'', JStr ''t1''),
                                  (''index'', JInt 1),
                                  (''function'', JStr ''rateModeSetReq''),
                                  (''reason'', JInt 0)]),
               (''dataBody'', JObj [(''rateModelID'', JStr ''m''),
                                    (''effect'', JInt 1),
                                    (''effectDate'', JStr ''d''),
                                    (''rateList'', JArr [JInt 1]),
                                    (''rateDetailsList'', JArr [JInt 2])])])]"
    by (simp add: init_def get_topic_def)
  ultimately show ?thesis
    by simp
qed

end
